theory Spec2Isabelle
  imports Main "HOL-Library.Sublist" "HOL-Library.AList"
begin

chapter \<open>The Zillow crawl pipeline: scraper.py, zipwiseproperties.py, propertyfields.py\<close>

text \<open>
  A shallow embedding of the three Python modules. Python strings are \<open>string\<close>
  (one \<open>char\<close> per code point below 256), Python ints are \<open>int\<close>, \<open>None\<close> is the
  \<open>None\<close> of an option type, and every exception the code can raise is a value
  \<open>Inl e\<close> of a sum type. The libraries the code calls (requests, BeautifulSoup, json,
  urllib, csv, the clock) are not part of the repository: the upstream service is an
  oracle, and the parsers and printers are parameters.
\<close>

section \<open>Definitions\<close>

subsection \<open>Python values\<close>

datatype py_error =
    TypeError | AttributeError | KeyError | IndexError | ValueError
  | JSONDecodeError | StopIteration | FileNotFoundError

definition digit_char :: "nat \<Rightarrow> char" where
  "digit_char n = ''0123456789'' ! n"

fun str_nat :: "nat \<Rightarrow> string" where
  "str_nat n = (if n < 10 then [digit_char n] else str_nat (n div 10) @ [digit_char (n mod 10)])"

declare str_nat.simps [simp del]

text \<open>\<open>str(i)\<close> and the \<open>{i}\<close> of an f-string, for an int.\<close>

definition str_int :: "int \<Rightarrow> string" where
  "str_int i = (if i < 0 then CHR ''-'' # str_nat (nat (- i)) else str_nat (nat i))"

subsection \<open>zipwiseproperties.fetch_html_with_zyte\<close>

text \<open>
  What one \<open>requests.post\<close> to the extraction service can give: a response with its
  status code, reason phrase and body; a \<open>requests.exceptions.Timeout\<close>; another
  \<open>RequestException\<close> (with the status of the response attached to it, if any); or any
  other exception. The body of a response is what
  \<open>b64decode(response.json()["httpResponseBody"]).decode('utf-8')\<close> makes of it: the
  text, a \<open>RequestException\<close> (the JSON error of \<open>response.json()\<close>), or another
  exception (a missing key, bad base64, bad UTF-8).
\<close>

datatype body_result = BodyText string | BodyRequestError string | BodyError string

datatype outcome =
    Response int string body_result
  | Timeout string
  | RequestException "int option" string
  | OtherException string

text \<open>
  The observable effects of the fetch client: a call of the upstream service and a
  \<open>time.sleep\<close>. The upstream is an oracle that sees everything that happened before
  (so it may answer the same URL differently each time).
\<close>

datatype event = Post string | Sleep int

type_synonym upstream = "event list \<Rightarrow> string \<Rightarrow> outcome"

type_synonym fetch_result = "string option \<times> string option"

text \<open>\<open>Response.raise_for_status\<close>: the message of the \<open>HTTPError\<close> it raises, if any.\<close>

definition raise_for_status :: "int \<Rightarrow> string \<Rightarrow> string option" where
  "raise_for_status status_code reason =
     (if 400 \<le> status_code \<and> status_code < 500 then
        Some (str_int status_code @ '' Client Error: '' @ reason
                @ '' for url: https://api.zyte.com/v1/extract'')
      else if 500 \<le> status_code \<and> status_code < 600 then
        Some (str_int status_code @ '' Server Error: '' @ reason
                @ '' for url: https://api.zyte.com/v1/extract'')
      else None)"

text \<open>The truth value of a response (\<open>Response.__bool__\<close> is \<open>Response.ok\<close>).\<close>

definition response_ok :: "int \<Rightarrow> bool" where
  "response_ok status_code = (\<not> (400 \<le> status_code \<and> status_code < 600))"

text \<open>
  The handler of \<open>RequestException\<close>:
  \<open>f"{e.response.status_code if e.response else 'No response'}: {str(e)}"\<close>.
\<close>

definition request_exception_message :: "int option \<Rightarrow> string \<Rightarrow> string" where
  "request_exception_message resp msg =
     (case resp of
        None \<Rightarrow> ''No response''
      | Some status_code \<Rightarrow>
          if response_ok status_code then str_int status_code else ''No response'')
     @ '': '' @ msg"

text \<open>
  The \<open>while retry_count < max_retries\<close> loop, with its three local variables as
  arguments. \<open>time.sleep\<close> raises \<open>ValueError\<close> on a negative delay, which the
  last handler catches (and breaks).
\<close>

function fetch_loop ::
  "upstream \<Rightarrow> string \<Rightarrow> int \<Rightarrow> int \<Rightarrow> int \<Rightarrow> string option \<Rightarrow> event list
     \<Rightarrow> fetch_result \<times> event list" where
  "fetch_loop upstream url max_retries retry_count retry_delay last_error_message tr =
     (if retry_count < max_retries then
        (let tr1 = tr @ [Post url] in
         case upstream tr url of
           Response status_code reason body \<Rightarrow>
             if status_code \<in> {429, 503, 520} then
               (if retry_delay < 0 then
                  ((None, Some ''sleep length must be non-negative''), tr1)
                else fetch_loop upstream url max_retries (retry_count + 1) (retry_delay * 2)
                       (Some (str_int status_code @ '': '' @ reason)) (tr1 @ [Sleep retry_delay]))
             else
               (case raise_for_status status_code reason of
                  Some http_error_msg \<Rightarrow>
                    fetch_loop upstream url max_retries (retry_count + 1) retry_delay
                      (Some (request_exception_message (Some status_code) http_error_msg)) tr1
                | None \<Rightarrow>
                    (case body of
                       BodyText text \<Rightarrow> ((Some text, None), tr1)
                     | BodyRequestError msg \<Rightarrow>
                         fetch_loop upstream url max_retries (retry_count + 1) retry_delay
                           (Some (request_exception_message None msg)) tr1
                     | BodyError msg \<Rightarrow> ((None, Some msg), tr1)))
         | Timeout msg \<Rightarrow>
             fetch_loop upstream url max_retries (retry_count + 1) retry_delay
               (Some (''Timeout: '' @ msg)) tr1
         | RequestException resp msg \<Rightarrow>
             fetch_loop upstream url max_retries (retry_count + 1) retry_delay
               (Some (request_exception_message resp msg)) tr1
         | OtherException msg \<Rightarrow> ((None, Some msg), tr1))
      else ((None, last_error_message), tr))"
  by pat_completeness auto
termination
  by (relation "measure (\<lambda>(upstream, url, max_retries, retry_count, retry_delay,
        last_error_message, tr). nat (max_retries - retry_count))") auto

declare fetch_loop.simps [simp del]

definition fetch_html_with_zyte ::
  "upstream \<Rightarrow> string \<Rightarrow> int \<Rightarrow> int \<Rightarrow> event list \<Rightarrow> fetch_result \<times> event list" where
  "fetch_html_with_zyte upstream url max_retries initial_retry_delay tr =
     fetch_loop upstream url max_retries 0 initial_retry_delay None tr"

subsection \<open>The backoff rule, in the words of the specification\<close>







subsection \<open>Python strings, JSON values and dictionaries\<close>

text \<open>
  \<open>s.split(sep)\<close> for a non-empty separator: the pieces between the occurrences of
  \<open>sep\<close>, found from left to right without overlap. (Python raises on an empty
  separator; the code only splits on constants.)
\<close>

function split_on :: "string \<Rightarrow> string \<Rightarrow> string \<Rightarrow> string list" where
  "split_on sep cur [] = [cur]"
| "split_on sep cur (c # cs) =
     (if sep \<noteq> [] \<and> prefix sep (c # cs)
      then cur # split_on sep [] (drop (length sep) (c # cs))
      else split_on sep (cur @ [c]) cs)"
  by pat_completeness auto
termination
  by (relation "measure (\<lambda>(sep, cur, s). length s)") auto

definition py_split :: "string \<Rightarrow> string \<Rightarrow> string list" where
  "py_split sep s = split_on sep [] s"

text \<open>\<open>s.rstrip(chars)\<close>.\<close>

definition py_rstrip :: "string \<Rightarrow> string \<Rightarrow> string" where
  "py_rstrip chars s = rev (dropWhile (\<lambda>c. c \<in> set chars) (rev s))"

text \<open>
  The white space of \<open>str.strip()\<close> and \<open>str.split()\<close> among the code points
  below 256: tab, line feed, vertical tab, form feed, carriage return, the separators
  28 to 31, space, next line (133) and no-break space (160).
\<close>

definition py_isspace :: "char \<Rightarrow> bool" where
  "py_isspace c = (of_char c \<in> {9, 10, 11, 12, 13, 28, 29, 30, 31, 32, 133, 160 :: nat})"

definition py_strip :: "string \<Rightarrow> string" where
  "py_strip s = rev (dropWhile py_isspace (rev (dropWhile py_isspace s)))"

text \<open>\<open>s.split()\<close>: the maximal runs of characters that are not white space.\<close>

fun split_ws :: "string \<Rightarrow> string \<Rightarrow> string list" where
  "split_ws cur [] = (if cur = [] then [] else [cur])"
| "split_ws cur (c # cs) =
     (if py_isspace c then (if cur = [] then split_ws [] cs else cur # split_ws [] cs)
      else split_ws (cur @ [c]) cs)"

definition py_split_ws :: "string \<Rightarrow> string list" where
  "py_split_ws s = split_ws [] s"

text \<open>
  The values \<open>json.loads\<close> builds, without the numbers that have a fraction or an
  exponent. An object is a Python dict: an association list in insertion order.
\<close>

datatype json =
    JNull | JBool bool | JInt int | JStr string | JArr "json list"
  | JObj "(string \<times> json) list"

text \<open>\<open>v[k]\<close> for a string key: only a dict has string keys.\<close>

fun py_getitem :: "json \<Rightarrow> string \<Rightarrow> py_error + json" where
  "py_getitem (JObj kvs) k = (case map_of kvs k of None \<Rightarrow> Inl KeyError | Some v \<Rightarrow> Inr v)"
| "py_getitem v k = Inl TypeError"

text \<open>\<open>v[k1][k2]...\<close>\<close>

fun py_getpath :: "json \<Rightarrow> string list \<Rightarrow> py_error + json" where
  "py_getpath v [] = Inr v"
| "py_getpath v (k # ks) = (case py_getitem v k of Inl e \<Rightarrow> Inl e | Inr x \<Rightarrow> py_getpath x ks)"

text \<open>\<open>v[k] = x\<close>: a dict keeps the place of a key it has and appends a new one.\<close>

fun py_setitem :: "json \<Rightarrow> string \<Rightarrow> json \<Rightarrow> py_error + json" where
  "py_setitem (JObj kvs) k x = Inr (JObj (AList.update k x kvs))"
| "py_setitem v k x = Inl TypeError"

text \<open>Several assignments \<open>v[k] = x\<close> in a row.\<close>

fun py_setitems :: "json \<Rightarrow> (string \<times> json) list \<Rightarrow> py_error + json" where
  "py_setitems v [] = Inr v"
| "py_setitems v ((k, x) # kxs) =
     (case py_setitem v k x of Inl e \<Rightarrow> Inl e | Inr v' \<Rightarrow> py_setitems v' kxs)"

text \<open>\<open>for x in v\<close>: the elements of a list, the keys of a dict, the characters of a string.\<close>

fun py_iter :: "json \<Rightarrow> py_error + json list" where
  "py_iter (JArr xs) = Inr xs"
| "py_iter (JObj kvs) = Inr (map (\<lambda>kv. JStr (fst kv)) kvs)"
| "py_iter (JStr s) = Inr (map (\<lambda>c. JStr [c]) s)"
| "py_iter v = Inl TypeError"

text \<open>A list comprehension whose element expression may raise: the first exception wins.\<close>

fun collect :: "('e + 'a) list \<Rightarrow> 'e + 'a list" where
  "collect [] = Inr []"
| "collect (Inl e # rs) = Inl e"
| "collect (Inr x # rs) = (case collect rs of Inl e \<Rightarrow> Inl e | Inr xs \<Rightarrow> Inr (x # xs))"

text \<open>The truth value of a string or \<open>None\<close> (\<open>if html:\<close>) and of a list or \<open>None\<close> (\<open>if links:\<close>).\<close>

definition truthy_str :: "string option \<Rightarrow> bool" where
  "truthy_str html = (case html of None \<Rightarrow> False | Some h \<Rightarrow> h \<noteq> [])"

definition truthy_list :: "'a list option \<Rightarrow> bool" where
  "truthy_list links = (case links of None \<Rightarrow> False | Some ls \<Rightarrow> ls \<noteq> [])"

subsection \<open>The libraries\<close>

text \<open>
  What the code asks of a parsed page. \<open>title_text\<close> is \<open>soup.title.text\<close> (\<open>None\<close>
  when there is no title). \<open>meta_description\<close> is the tag found by
  \<open>soup.find('meta', {'name': 'description'})\<close> with its \<open>content\<close> attribute, if it
  has one. \<open>overview_stats\<close> is the element selected by
  \<open>dl[class*=StyledOverviewStats]\<close> with its \<open>dt\<close> descendants; of each the \<open>class\<close>
  attribute and the text of its first \<open>strong\<close> descendant. \<open>next_data\<close> is the tag
  found by \<open>soup.find('script', id='__NEXT_DATA__')\<close> with its \<open>.string\<close>.
\<close>

record dt_element =
  dt_class :: "string list option"
  strong_text :: "string option"

record soup =
  title_text :: "string option"
  meta_description :: "string option option"
  overview_stats :: "dt_element list option"
  next_data :: "string option option"

text \<open>
  The library functions: the HTML parser, \<open>json.loads\<close> (\<open>None\<close> for a
  \<open>JSONDecodeError\<close>), \<open>json.dumps\<close>, \<open>urllib.parse.quote\<close> and \<open>unquote\<close>.
\<close>

record lib =
  BeautifulSoup :: "string \<Rightarrow> soup"
  json_loads :: "string \<Rightarrow> json option"
  json_dumps :: "json \<Rightarrow> string"
  quote :: "string \<Rightarrow> string"
  unquote :: "string \<Rightarrow> string"

subsection \<open>zipwiseproperties: the parsers of a search page\<close>

text \<open>
  The first two lines of each parser: \<open>BeautifulSoup(html, 'html.parser')\<close>, which
  raises \<open>TypeError\<close> on \<open>None\<close>, and the search for the script tag.
\<close>

definition find_next_data :: "lib \<Rightarrow> string option \<Rightarrow> py_error + string option option" where
  "find_next_data L html =
     (case html of None \<Rightarrow> Inl TypeError | Some h \<Rightarrow> Inr (next_data (BeautifulSoup L h)))"

text \<open>\<open>json.loads(data_script.string)\<close>: \<open>TypeError\<close> when the tag has no string.\<close>

definition loads_script :: "lib \<Rightarrow> string option \<Rightarrow> py_error + json" where
  "loads_script L script_string =
     (case script_string of
        None \<Rightarrow> Inl TypeError
      | Some s \<Rightarrow> (case json_loads L s of None \<Rightarrow> Inl JSONDecodeError | Some j \<Rightarrow> Inr j))"

definition parse_properties :: "lib \<Rightarrow> string option \<Rightarrow> py_error + json list option" where
  "parse_properties L html =
     (case find_next_data L html of
        Inl e \<Rightarrow> Inl e
      | Inr None \<Rightarrow> Inr None
      | Inr (Some script_string) \<Rightarrow>
          (case loads_script L script_string of
             Inl e \<Rightarrow> Inl e
           | Inr data_json \<Rightarrow>
               (case py_getpath data_json
                       [''props'', ''pageProps'', ''searchPageState'', ''cat1'', ''searchResults'',
                        ''listResults''] of
                  Inl e \<Rightarrow> Inl e
                | Inr property_data \<Rightarrow>
                    (case py_iter property_data of
                       Inl e \<Rightarrow> Inl e
                     | Inr properties \<Rightarrow>
                         (case collect (map (\<lambda>property. py_getitem property ''detailUrl'') properties) of
                            Inl e \<Rightarrow> Inl e
                          | Inr links \<Rightarrow> Inr (Some links))))))"

text \<open>
  \<open>total_pages\<close> has no test of \<open>data_script\<close>: on a page without the script tag,
  \<open>data_script.string\<close> is an attribute of \<open>None\<close>.
\<close>

definition total_pages :: "lib \<Rightarrow> string option \<Rightarrow> py_error + json" where
  "total_pages L html =
     (case find_next_data L html of
        Inl e \<Rightarrow> Inl e
      | Inr None \<Rightarrow> Inl AttributeError
      | Inr (Some script_string) \<Rightarrow>
          (case loads_script L script_string of
             Inl e \<Rightarrow> Inl e
           | Inr data_json \<Rightarrow>
               py_getpath data_json
                 [''props'', ''pageProps'', ''searchPageState'', ''cat1'', ''searchList'',
                  ''totalPages'']))"

text \<open>
  The end of both query-state parsers: \<open>isAllHomes\<close> is deleted from the filter state
  and \<open>sortSelection\<close> is renamed to \<open>sort\<close> (\<open>pop\<close>, then the assignment).
\<close>

fun normalize_filterState :: "json \<Rightarrow> py_error + json" where
  "normalize_filterState (JObj kvs) =
     (let kvs1 = (if map_of kvs ''isAllHomes'' \<noteq> None then AList.delete ''isAllHomes'' kvs else kvs)
      in case map_of kvs1 ''sortSelection'' of
           None \<Rightarrow> Inr (JObj kvs1)
         | Some v \<Rightarrow> Inr (JObj (AList.update ''sort'' v (AList.delete ''sortSelection'' kvs1))))"
| "normalize_filterState v = Inl TypeError"

text \<open>
  The body both query-state parsers share: \<open>state_items\<close> are the assignments
  to \<open>queryState\<close>, \<open>filter_items\<close> those to \<open>queryState['filterState']\<close>.
\<close>

definition parse_state_with ::
  "(string \<times> json) list \<Rightarrow> (string \<times> json) list \<Rightarrow> lib \<Rightarrow> string option
     \<Rightarrow> py_error + (json option \<times> json option)" where
  "parse_state_with state_items filter_items L html =
     (case find_next_data L html of
        Inl e \<Rightarrow> Inl e
      | Inr None \<Rightarrow> Inr (None, None)
      | Inr (Some script_string) \<Rightarrow>
          (case loads_script L script_string of
             Inl e \<Rightarrow> Inl e
           | Inr data_json \<Rightarrow>
          (case py_getpath data_json
                  [''props'', ''pageProps'', ''searchPageState'', ''searchPageSeoObject'', ''baseUrl''] of
             Inl e \<Rightarrow> Inl e
           | Inr baseurl \<Rightarrow>
          (case py_getpath data_json [''props'', ''pageProps'', ''searchPageState'', ''queryState''] of
             Inl e \<Rightarrow> Inl e
           | Inr queryState \<Rightarrow>
          (case py_setitems queryState state_items of
             Inl e \<Rightarrow> Inl e
           | Inr queryState1 \<Rightarrow>
          (case py_getitem queryState1 ''filterState'' of
             Inl e \<Rightarrow> Inl e
           | Inr filterState \<Rightarrow>
          (case py_setitems filterState filter_items of
             Inl e \<Rightarrow> Inl e
           | Inr filterState1 \<Rightarrow>
          (case normalize_filterState filterState1 of
             Inl e \<Rightarrow> Inl e
           | Inr filterState2 \<Rightarrow>
          (case py_setitem queryState1 ''filterState'' filterState2 of
             Inl e \<Rightarrow> Inl e
           | Inr queryState2 \<Rightarrow> Inr (Some baseurl, Some queryState2))))))))))"

definition value_of :: "json \<Rightarrow> json" where
  "value_of v = JObj [(''value'', v)]"

definition parse_queryState :: "lib \<Rightarrow> string option \<Rightarrow> py_error + (json option \<times> json option)" where
  "parse_queryState =
     parse_state_with
       [(''ah'', value_of (JBool True)), (''isListVisible'', JBool True), (''mapZoom'', JInt 15),
        (''pagination'', JObj [])]
       [(''mf'', value_of (JBool False)), (''con'', value_of (JBool False)),
        (''land'', value_of (JBool False)), (''apa'', value_of (JBool False)),
        (''manu'', value_of (JBool False)), (''apco'', value_of (JBool False))]"

definition parse_soldQueryState :: "lib \<Rightarrow> string option \<Rightarrow> py_error + (json option \<times> json option)" where
  "parse_soldQueryState =
     parse_state_with
       [(''isListVisible'', JBool True), (''mapZoom'', JInt 15), (''pagination'', JObj [])]
       [(''mf'', value_of (JBool False)), (''con'', value_of (JBool False)),
        (''land'', value_of (JBool False)), (''apa'', value_of (JBool False)),
        (''manu'', value_of (JBool False)), (''rs'', value_of (JBool True)),
        (''fsba'', value_of (JBool False)), (''fsbo'', value_of (JBool False)),
        (''nc'', value_of (JBool False)), (''cmsn'', value_of (JBool False)),
        (''auc'', value_of (JBool False)), (''fore'', value_of (JBool False)),
        (''doz'', value_of (JStr ''24m''))]"

subsection \<open>zipwiseproperties: the search-state codec\<close>

definition url_sep :: string where
  "url_sep = ''?searchQueryState=''"

text \<open>
  The first three lines of each \<open>update_url_with_...\<close>: the URL is split at the
  separator, the part before it loses its trailing slashes, and the part after it is
  unquoted and parsed. \<open>url_parts[1]\<close> raises \<open>IndexError\<close> when the URL has no
  separator.
\<close>

definition split_search_url :: "lib \<Rightarrow> string \<Rightarrow> py_error + (string \<times> json)" where
  "split_search_url L base_url =
     (let url_parts = py_split url_sep base_url;
          base_part = py_rstrip ''/'' (hd url_parts)
      in if length url_parts < 2 then Inl IndexError
         else (case json_loads L (unquote L (url_parts ! 1)) of
                 None \<Rightarrow> Inl JSONDecodeError
               | Some search_query_state \<Rightarrow> Inr (base_part, search_query_state)))"

text \<open>\<open>{"min": lo}\<close> when \<open>hi\<close> is \<open>None\<close>, else \<open>{"min": lo, "max": hi}\<close>.\<close>

definition range_filter :: "int \<Rightarrow> int option \<Rightarrow> json" where
  "range_filter lo hi =
     (case hi of None \<Rightarrow> JObj [(''min'', JInt lo)]
      | Some h \<Rightarrow> JObj [(''min'', JInt lo), (''max'', JInt h)])"

text \<open>\<open>search_query_state['filterState'][name] = v\<close>, on the dict inside the state.\<close>

definition set_filter :: "json \<Rightarrow> string \<Rightarrow> json \<Rightarrow> py_error + json" where
  "set_filter search_query_state name v =
     (case py_getitem search_query_state ''filterState'' of
        Inl e \<Rightarrow> Inl e
      | Inr filterState \<Rightarrow>
          (case py_setitem filterState name v of
             Inl e \<Rightarrow> Inl e
           | Inr filterState' \<Rightarrow> py_setitem search_query_state ''filterState'' filterState'))"

definition update_url_with_price ::
  "lib \<Rightarrow> string \<Rightarrow> int \<Rightarrow> int option \<Rightarrow> int \<Rightarrow> int option \<Rightarrow> py_error + string" where
  "update_url_with_price L base_url min_price max_price min_mp max_mp =
     (case split_search_url L base_url of
        Inl e \<Rightarrow> Inl e
      | Inr (base_part, search_query_state) \<Rightarrow>
          (case set_filter search_query_state ''price'' (range_filter min_price max_price) of
             Inl e \<Rightarrow> Inl e
           | Inr state1 \<Rightarrow>
               (case set_filter state1 ''mp'' (range_filter min_mp max_mp) of
                  Inl e \<Rightarrow> Inl e
                | Inr state2 \<Rightarrow>
                    Inr (base_part @ ''/?searchQueryState='' @ quote L (json_dumps L state2)))))"

definition update_url_with_beds ::
  "lib \<Rightarrow> string \<Rightarrow> int \<Rightarrow> int option \<Rightarrow> py_error + string" where
  "update_url_with_beds L base_url min_beds max_beds =
     (case split_search_url L base_url of
        Inl e \<Rightarrow> Inl e
      | Inr (base_part, search_query_state) \<Rightarrow>
          (case set_filter search_query_state ''beds'' (range_filter min_beds max_beds) of
             Inl e \<Rightarrow> Inl e
           | Inr state1 \<Rightarrow>
               Inr (base_part @ ''/?searchQueryState='' @ quote L (json_dumps L state1))))"

definition update_url_with_page :: "lib \<Rightarrow> string \<Rightarrow> int \<Rightarrow> py_error + string" where
  "update_url_with_page L base_url page_number =
     (case split_search_url L base_url of
        Inl e \<Rightarrow> Inl e
      | Inr (base_part, search_query_state) \<Rightarrow>
          (case py_setitem search_query_state ''pagination''
                  (JObj [(''currentPage'', JInt page_number)]) of
             Inl e \<Rightarrow> Inl e
           | Inr state1 \<Rightarrow>
               Inr (base_part @ ''/'' @ str_int page_number @ ''_p/?searchQueryState=''
                      @ quote L (json_dumps L state1))))"

subsection \<open>scraper: the discovery walk of one area\<close>

text \<open>
  The scraper reaches the upstream only through \<open>fetch_html_with_zyte(url)\<close>, with the
  default budget and delay. It is written here over any fetch function that passes a
  world along: \<open>fetch_html_with_zyte upstream url 5 1\<close> is one, on the world of the
  upstream's events.
\<close>

type_synonym 'w fetcher = "string \<Rightarrow> 'w \<Rightarrow> fetch_result \<times> 'w"

text \<open>
  A number as an int, in \<open>total_pages_count >= 20\<close> and \<open>total_pages_count + 1\<close>: a
  bool counts as 0 or 1, and any other value raises \<open>TypeError\<close> there.
\<close>

fun py_int :: "json \<Rightarrow> py_error + int" where
  "py_int (JInt n) = Inr n"
| "py_int (JBool b) = Inr (if b then 1 else 0)"
| "py_int v = Inl TypeError"

text \<open>\<open>if links: all_links.extend(links)\<close>\<close>

definition extend_if :: "json list \<Rightarrow> json list option \<Rightarrow> json list" where
  "extend_if all_links links =
     (if truthy_list links then (case links of None \<Rightarrow> all_links | Some ls \<Rightarrow> all_links @ ls)
      else all_links)"

text \<open>
  The loop of \<open>scrape_all_pages\<close> over the page numbers left, with the links it has
  so far. An exception leaves the function, and the links it had are lost with it.
\<close>

fun scrape_pages ::
  "lib \<Rightarrow> 'w fetcher \<Rightarrow> string \<Rightarrow> int list \<Rightarrow> json list \<Rightarrow> 'w
     \<Rightarrow> (py_error + json list) \<times> 'w" where
  "scrape_pages L fetch base_url [] all_links w = (Inr all_links, w)"
| "scrape_pages L fetch base_url (page_number # rest) all_links w =
     (case update_url_with_page L base_url page_number of
        Inl e \<Rightarrow> (Inl e, w)
      | Inr url \<Rightarrow>
          (case fetch url w of
             ((html, error), w1) \<Rightarrow>
               if truthy_str html then
                 (case parse_properties L html of
                    Inl e \<Rightarrow> (Inl e, w1)
                  | Inr links \<Rightarrow>
                      scrape_pages L fetch base_url rest (extend_if all_links links) w1)
               else scrape_pages L fetch base_url rest all_links w1))"

text \<open>
  \<open>scrape_all_pages(zip_code, base_url, total_pages_count, min_beds, max_beds)\<close>; the
  zip code and the bed bounds only go to the log.
\<close>

definition scrape_all_pages ::
  "lib \<Rightarrow> 'w fetcher \<Rightarrow> string \<Rightarrow> json \<Rightarrow> 'w \<Rightarrow> (py_error + json list) \<times> 'w" where
  "scrape_all_pages L fetch base_url total_pages_count w =
     (case py_int total_pages_count of
        Inl e \<Rightarrow> (Inl e, w)
      | Inr n \<Rightarrow> scrape_pages L fetch base_url [2..n] [] w)"

definition price_filters :: "(int \<times> int option) list" where
  "price_filters =
     [(0, Some 300000), (300001, Some 400000), (400001, Some 450000), (450001, Some 500000),
      (500001, Some 600000), (600001, Some 800000), (800001, None)]"

definition bed_filters :: "(int \<times> int option) list" where
  "bed_filters = [(0, Some 0), (1, Some 1), (2, Some 2), (3, Some 3), (4, Some 4), (5, None)]"

text \<open>
  The inner loop \<open>for min_beds, max_beds in bed_filters\<close>. The loops return the
  \<open>all_links\<close> of \<open>scrape_properties\<close> as it stands, and the exception that ended
  them, if one did. There is no test of \<open>html\<close> here: after a failed fetch,
  \<open>total_pages(None)\<close> raises. \<open>len(links)\<close> in the log line raises on \<open>None\<close>.
\<close>

fun beds_loop ::
  "lib \<Rightarrow> 'w fetcher \<Rightarrow> string \<Rightarrow> (int \<times> int option) list \<Rightarrow> json list \<Rightarrow> 'w
     \<Rightarrow> (json list \<times> py_error option) \<times> 'w" where
  "beds_loop L fetch filtered_url [] all_links w = ((all_links, None), w)"
| "beds_loop L fetch filtered_url ((min_beds, max_beds) # rest) all_links w =
     (case update_url_with_beds L filtered_url min_beds max_beds of
        Inl e \<Rightarrow> ((all_links, Some e), w)
      | Inr bed_filtered_url \<Rightarrow>
          (case fetch bed_filtered_url w of
             ((html, error), w1) \<Rightarrow>
               (case total_pages L html of
                  Inl e \<Rightarrow> ((all_links, Some e), w1)
                | Inr pages_count \<Rightarrow>
                    (case parse_properties L html of
                       Inl e \<Rightarrow> ((all_links, Some e), w1)
                     | Inr links \<Rightarrow>
                         (let all_links1 = extend_if all_links links in
                          if links = None then ((all_links1, Some TypeError), w1)
                          else
                            (case scrape_all_pages L fetch bed_filtered_url pages_count w1 of
                               (Inl e, w2) \<Rightarrow> ((all_links1, Some e), w2)
                             | (Inr page_links, w2) \<Rightarrow>
                                 beds_loop L fetch filtered_url rest (all_links1 @ page_links) w2))))))"

text \<open>The outer loop \<open>for price_filter in price_filters\<close>.\<close>

fun price_loop ::
  "lib \<Rightarrow> 'w fetcher \<Rightarrow> string \<Rightarrow> (int \<times> int option) list \<Rightarrow> json list \<Rightarrow> 'w
     \<Rightarrow> (json list \<times> py_error option) \<times> 'w" where
  "price_loop L fetch base_url [] all_links w = ((all_links, None), w)"
| "price_loop L fetch base_url ((min_price, max_price) # rest) all_links w =
     (case update_url_with_price L base_url min_price max_price 0 None of
        Inl e \<Rightarrow> ((all_links, Some e), w)
      | Inr filtered_url \<Rightarrow>
          (case beds_loop L fetch filtered_url bed_filters all_links w of
             ((all_links1, Some e), w1) \<Rightarrow> ((all_links1, Some e), w1)
           | ((all_links1, None), w1) \<Rightarrow> price_loop L fetch base_url rest all_links1 w1))"

text \<open>
  The \<open>try\<close> block of \<open>scrape_properties\<close>: the links gathered, and the exception
  its handler caught and logged, if any.
\<close>

definition scrape_walk ::
  "lib \<Rightarrow> 'w fetcher \<Rightarrow> string \<Rightarrow> 'w \<Rightarrow> (json list \<times> py_error option) \<times> 'w" where
  "scrape_walk L fetch base_url w =
     (case fetch base_url w of
        ((html, error), w1) \<Rightarrow>
          if \<not> truthy_str html then (([], None), w1)
          else
            (case parse_properties L html of
               Inl e \<Rightarrow> (([], Some e), w1)
             | Inr links \<Rightarrow>
                 (let all_links = extend_if [] links in
                  case total_pages L html of
                    Inl e \<Rightarrow> ((all_links, Some e), w1)
                  | Inr total_pages_count \<Rightarrow>
                      (case py_int total_pages_count of
                         Inl e \<Rightarrow> ((all_links, Some e), w1)
                       | Inr n \<Rightarrow>
                           if n \<ge> 20 then price_loop L fetch base_url price_filters all_links w1
                           else
                             (case scrape_all_pages L fetch base_url total_pages_count w1 of
                                (Inl e, w2) \<Rightarrow> ((all_links, Some e), w2)
                              | (Inr page_links, w2) \<Rightarrow> ((all_links @ page_links, None), w2))))))"

text \<open>
  \<open>list(set(all_links))\<close>. A list or a dict cannot be hashed (\<open>TypeError\<close>); among
  the other values Python's equality is equality, but for \<open>True == 1\<close> and
  \<open>False == 0\<close>. A set keeps the first of equal elements; the order of the list made
  from it is not specified, and is taken here to be the order of first occurrence.
\<close>

fun hashable :: "json \<Rightarrow> bool" where
  "hashable (JArr xs) = False"
| "hashable (JObj kvs) = False"
| "hashable v = True"

fun py_key :: "json \<Rightarrow> json" where
  "py_key (JBool b) = JInt (if b then 1 else 0)"
| "py_key v = v"

fun list_of_set :: "json list \<Rightarrow> json list \<Rightarrow> json list" where
  "list_of_set seen [] = seen"
| "list_of_set seen (x # xs) =
     list_of_set (if py_key x \<in> set (map py_key seen) then seen else seen @ [x]) xs"

definition scrape_properties ::
  "lib \<Rightarrow> 'w fetcher \<Rightarrow> string \<Rightarrow> 'w \<Rightarrow> (py_error + json list) \<times> 'w" where
  "scrape_properties L fetch base_url w =
     (case scrape_walk L fetch base_url w of
        ((all_links, caught), w1) \<Rightarrow>
          (if list_all hashable all_links then Inr (list_of_set [] all_links) else Inl TypeError, w1))"

text \<open>
  A world that is the list of the URLs fetched so far, in order. The answers give the
  result of each fetch, and may depend on what was fetched before.
\<close>

type_synonym answers = "string list \<Rightarrow> string \<Rightarrow> fetch_result"

definition recorded :: "answers \<Rightarrow> string list fetcher" where
  "recorded answer url fetched = (answer fetched url, fetched @ [url])"

subsection \<open>propertyfields\<close>

text \<open>
  \<open>extractPropertyInfo\<close>. The \<open>try\<close> block catches the missing title
  (\<open>AttributeError\<close>) and the title with no \<open>|\<close> (\<open>ValueError\<close> of the
  unpacking); the price expression \<open>parts[1].split()[0]\<close> is outside any \<open>try\<close>.
\<close>

definition extractPropertyInfo :: "soup \<Rightarrow> py_error + string \<times> string \<times> string" where
  "extractPropertyInfo sp =
     (let (address, MLS) =
            (case title_text sp of
               None \<Rightarrow> (''N/A'', ''N/A'')
             | Some title \<Rightarrow>
                 (case py_split ''|'' title of
                    address # mls # rest \<Rightarrow>
                      (py_strip address, py_strip (last (py_split ''#'' (py_strip mls))))
                  | _ \<Rightarrow> (''N/A'', ''N/A'')))
      in case meta_description sp of
           None \<Rightarrow> Inr (address, MLS, ''N/A'')
         | Some content_attr \<Rightarrow>
             (let content = (case content_attr of None \<Rightarrow> [] | Some c \<Rightarrow> c);
                  parts = py_split ''$'' content
              in if length parts > 1 then
                   (case py_split_ws (parts ! 1) of
                      [] \<Rightarrow> Inl IndexError
                    | listed_price # others \<Rightarrow> Inr (address, MLS, listed_price))
                 else Inr (address, MLS, ''N/A'')))"

text \<open>
  \<open>dt_elements[i].find('strong').text if len(dt_elements) > i else "N/A"\<close>: the
  attribute of \<open>None\<close> when the element has no \<open>strong\<close> descendant.
\<close>

definition stat_text :: "dt_element list \<Rightarrow> nat \<Rightarrow> py_error + string" where
  "stat_text dt_elements i =
     (if length dt_elements > i then
        (case strong_text (dt_elements ! i) of None \<Rightarrow> Inl AttributeError | Some t \<Rightarrow> Inr t)
      else Inr ''N/A'')"

definition extractStats :: "soup \<Rightarrow> py_error + string \<times> string \<times> string" where
  "extractStats sp =
     (case overview_stats sp of
        None \<Rightarrow> Inr (''N/A'', ''N/A'', ''N/A'')
      | Some dts \<Rightarrow>
          (let dt_elements = filter (\<lambda>dt. \<not> truthy_list (dt_class dt)) dts
           in case stat_text dt_elements 0 of
                Inl e \<Rightarrow> Inl e
              | Inr days_on_zillow \<Rightarrow>
                  (case stat_text dt_elements 1 of
                     Inl e \<Rightarrow> Inl e
                   | Inr views \<Rightarrow>
                       (case stat_text dt_elements 2 of
                          Inl e \<Rightarrow> Inl e
                        | Inr saves \<Rightarrow> Inr (days_on_zillow, views, saves)))))"

text \<open>
  The dict \<open>parsePropertyFields\<close> returns; \<open>mls\<close> is its key \<open>'MLS #'\<close> and
  \<open>detail_url\<close> its key \<open>'url'\<close>.
\<close>

record property_details =
  address :: string
  listed_price :: string
  mls :: string
  days_on_zillow :: string
  views :: string
  saves :: string
  detail_url :: string

definition parsePropertyFields :: "lib \<Rightarrow> string \<Rightarrow> string \<Rightarrow> py_error + property_details" where
  "parsePropertyFields L html url =
     (let sp = BeautifulSoup L html
      in case extractPropertyInfo sp of
           Inl e \<Rightarrow> Inl e
         | Inr (address', MLS, listed_price') \<Rightarrow>
             (case extractStats sp of
                Inl e \<Rightarrow> Inl e
              | Inr (days_on_zillow', views', saves') \<Rightarrow>
                  Inr \<lparr>address = address', listed_price = listed_price', mls = MLS,
                       days_on_zillow = days_on_zillow', views = views', saves = saves',
                       detail_url = url\<rparr>))"

subsection \<open>scraper: the harvest of the listing pages\<close>

















subsection \<open>The discovery walk, in the words of the specification\<close>







text \<open>
  The specification's equality of links: equality after a trim of white space.
\<close>

fun trimmed :: "json \<Rightarrow> json" where
  "trimmed (JStr s) = JStr (py_strip s)"
| "trimmed v = v"

subsection \<open>The harvest, in the words of the specification\<close>






subsection \<open>A concrete library\<close>

text \<open>
  The library functions on the inputs the examples need. \<open>py_quote\<close> is
  \<open>urllib.parse.quote\<close> on ASCII text: letters, digits and \<open>_.-~/\<close> stay, any
  other character becomes a percent escape. \<open>py_unquote\<close> undoes the escapes of
  ASCII characters (urllib decodes the escapes of larger bytes as UTF-8; none occur
  here). \<open>py_dumps\<close> is \<open>json.dumps\<close> with its default separators and escapes.
\<close>

definition hex_digit :: "nat \<Rightarrow> char" where
  "hex_digit n = ''0123456789ABCDEF'' ! n"

definition quote_safe :: "char \<Rightarrow> bool" where
  "quote_safe c =
     (let n = (of_char c :: nat)
      in (48 \<le> n \<and> n \<le> 57) \<or> (65 \<le> n \<and> n \<le> 90) \<or> (97 \<le> n \<and> n \<le> 122)
         \<or> n = 95 \<or> n = 46 \<or> n = 45 \<or> n = 126 \<or> n = 47)"

fun py_quote :: "string \<Rightarrow> string" where
  "py_quote [] = []"
| "py_quote (c # cs) =
     (if quote_safe c then c # py_quote cs
      else CHR ''%'' # hex_digit (of_char c div 16) # hex_digit (of_char c mod 16) # py_quote cs)"

definition hex_value :: "char \<Rightarrow> nat option" where
  "hex_value c =
     (let n = (of_char c :: nat)
      in if 48 \<le> n \<and> n \<le> 57 then Some (n - 48)
         else if 65 \<le> n \<and> n \<le> 70 then Some (n - 55)
         else if 97 \<le> n \<and> n \<le> 102 then Some (n - 87)
         else None)"

fun py_unquote :: "string \<Rightarrow> string" where
  "py_unquote (c # h # l # cs) =
     (if c = CHR ''%'' then
        (case (hex_value h, hex_value l) of
           (Some a, Some b) \<Rightarrow>
             if a < 8 then char_of (a * 16 + b) # py_unquote cs else c # py_unquote (h # l # cs)
         | _ \<Rightarrow> c # py_unquote (h # l # cs))
      else c # py_unquote (h # l # cs))"
| "py_unquote cs = cs"

definition lower_hex_digit :: "nat \<Rightarrow> char" where
  "lower_hex_digit n = ''0123456789abcdef'' ! n"

definition escape_char :: "char \<Rightarrow> string" where
  "escape_char c =
     (let n = (of_char c :: nat)
      in if n = 34 then [CHR 0x5C, CHR 0x22]
         else if n = 92 then [CHR 0x5C, CHR 0x5C]
         else if n = 10 then [CHR 0x5C, CHR ''n'']
         else if n = 13 then [CHR 0x5C, CHR ''r'']
         else if n = 9 then [CHR 0x5C, CHR ''t'']
         else if n = 8 then [CHR 0x5C, CHR ''b'']
         else if n = 12 then [CHR 0x5C, CHR ''f'']
         else if n < 32 \<or> 126 < n then
           [CHR 0x5C, CHR ''u'', CHR ''0'', CHR ''0'', lower_hex_digit (n div 16),
            lower_hex_digit (n mod 16)]
         else [c])"

definition dumps_str :: "string \<Rightarrow> string" where
  "dumps_str s = [CHR 0x22] @ concat (map escape_char s) @ [CHR 0x22]"

fun join :: "string \<Rightarrow> string list \<Rightarrow> string" where
  "join sep [] = []"
| "join sep [x] = x"
| "join sep (x # y # ys) = x @ sep @ join sep (y # ys)"

fun py_dumps :: "json \<Rightarrow> string" where
  "py_dumps JNull = ''null''"
| "py_dumps (JBool b) = (if b then ''true'' else ''false'')"
| "py_dumps (JInt n) = str_int n"
| "py_dumps (JStr s) = dumps_str s"
| "py_dumps (JArr xs) = ''['' @ join '', '' (map py_dumps xs) @ '']''"
| "py_dumps (JObj kvs) =
     ''{'' @ join '', '' (map (\<lambda>kv. dumps_str (fst kv) @ '': '' @ py_dumps (snd kv)) kvs) @ ''}''"

text \<open>A page without any of the tags the code looks for.\<close>

definition no_tags :: soup where
  "no_tags = \<lparr>title_text = None, meta_description = None, overview_stats = None, next_data = None\<rparr>"

text \<open>
  A library from two tables: what BeautifulSoup finds in each page, and the value
  \<open>json.loads\<close> reads from each text (a text not in the table does not parse).
\<close>

definition table_lib :: "(string \<times> soup) list \<Rightarrow> (string \<times> json) list \<Rightarrow> lib" where
  "table_lib pages texts =
     \<lparr>BeautifulSoup = (\<lambda>h. case map_of pages h of None \<Rightarrow> no_tags | Some sp \<Rightarrow> sp),
      json_loads = map_of texts,
      json_dumps = py_dumps, quote = py_quote, unquote = py_unquote\<rparr>"

subsection \<open>Concrete inputs\<close>


text \<open>
  A search URL as \<open>generate_zipcode_url\<close> builds it (the state is appended as
  \<open>json.dumps\<close> prints it), with a monthly-payment filter, a bedroom filter and a page
  cursor in its state; and the state after \<open>update_url_with_price(url, 0, 300000)\<close>.
\<close>

definition mp_state :: json where
  "mp_state =
     JObj [(''pagination'', JObj [(''currentPage'', JInt 2)]),
           (''filterState'', JObj [(''mp'', range_filter 1000 (Some 2000)),
                                   (''beds'', range_filter 2 None)])]"

definition mp_state_after :: json where
  "mp_state_after =
     JObj [(''pagination'', JObj [(''currentPage'', JInt 2)]),
           (''filterState'', JObj [(''mp'', range_filter 0 None),
                                   (''beds'', range_filter 2 None),
                                   (''price'', range_filter 0 (Some 300000))])]"

definition mp_lib :: lib where
  \<open>mp_lib = table_lib []
     [(''{"pagination": {"currentPage": 2}, "filterState": {"mp": {"min": 1000, "max": 2000}, "beds": {"min": 2}}}'', mp_state),
      (''{"pagination": {"currentPage": 2}, "filterState": {"mp": {"min": 0}, "beds": {"min": 2}, "price": {"min": 0, "max": 300000}}}'', mp_state_after)]\<close>

definition mp_url :: string where
  \<open>mp_url = ''https://www.zillow.com/homes/02118_rb/?searchQueryState={"pagination": {"currentPage": 2}, "filterState": {"mp": {"min": 1000, "max": 2000}, "beds": {"min": 2}}}''\<close>

definition mp_url_after :: string where
  "mp_url_after =
     ''https://www.zillow.com/homes/02118_rb/?searchQueryState='' @ py_quote (py_dumps mp_state_after)"


text \<open>
  A search page is the script tag around the JSON text of its data; \<open>search_data\<close>
  is the part of the data the code reads: the links of the page and the page count.
\<close>

definition search_data :: "string list \<Rightarrow> int \<Rightarrow> json" where
  "search_data links n =
     JObj [(''props'', JObj [(''pageProps'', JObj [(''searchPageState'', JObj [(''cat1'', JObj
       [(''searchResults'',
           JObj [(''listResults'', JArr (map (\<lambda>l. JObj [(''detailUrl'', JStr l)]) links))]),
        (''searchList'', JObj [(''totalPages'', JInt n)])])])])])]"

definition script_page :: "string \<Rightarrow> string" where
  \<open>script_page text = ''<script id="__NEXT_DATA__" type="application/json">'' @ text @ ''</script>''\<close>

definition script_soup :: "string \<Rightarrow> soup" where
  "script_soup text = no_tags\<lparr>next_data := Some (Some text)\<rparr>"

definition big_text :: string where
  \<open>big_text = ''{"props": {"pageProps": {"searchPageState": {"cat1": {"searchResults": {"listResults": [{"detailUrl": "/homedetails/1_zpid/"}, {"detailUrl": "/homedetails/2_zpid/"}]}, "searchList": {"totalPages": 20}}}}}}''\<close>

definition small_text :: string where
  \<open>small_text = ''{"props": {"pageProps": {"searchPageState": {"cat1": {"searchResults": {"listResults": [{"detailUrl": "/homedetails/1_zpid/"}, {"detailUrl": "/homedetails/2_zpid/"}]}, "searchList": {"totalPages": 3}}}}}}''\<close>

definition single_text :: string where
  \<open>single_text = ''{"props": {"pageProps": {"searchPageState": {"cat1": {"searchResults": {"listResults": [{"detailUrl": "/homedetails/3_zpid/"}]}, "searchList": {"totalPages": 1}}}}}}''\<close>

definition spaced_text :: string where
  \<open>spaced_text = ''{"props": {"pageProps": {"searchPageState": {"cat1": {"searchResults": {"listResults": [{"detailUrl": "/homedetails/1_zpid/"}, {"detailUrl": "/homedetails/1_zpid/ "}]}, "searchList": {"totalPages": 1}}}}}}''\<close>

text \<open>
  The state of an area's base URL, the URL as \<open>generate_zipcode_url\<close> builds it,
  and the state after \<open>update_url_with_price\<close> for a price band.
\<close>

definition area_state :: json where
  "area_state =
     JObj [(''pagination'', JObj []),
           (''filterState'', JObj [(''sort'', JObj [(''value'', JStr ''days'')])])]"

definition area_url :: string where
  \<open>area_url = ''https://www.zillow.com/homes/02118_rb/?searchQueryState={"pagination": {}, "filterState": {"sort": {"value": "days"}}}''\<close>

definition priced :: "int \<times> int option \<Rightarrow> json" where
  "priced band =
     JObj [(''pagination'', JObj []),
           (''filterState'', JObj [(''sort'', JObj [(''value'', JStr ''days'')]),
                                   (''price'', range_filter (fst band) (snd band)),
                                   (''mp'', range_filter 0 None)])]"

definition area_lib :: lib where
  \<open>area_lib = table_lib
     [(script_page big_text, script_soup big_text), (script_page small_text, script_soup small_text),
      (script_page single_text, script_soup single_text),
      (script_page spaced_text, script_soup spaced_text)]
     [(big_text, search_data [''/homedetails/1_zpid/'', ''/homedetails/2_zpid/''] 20),
      (small_text, search_data [''/homedetails/1_zpid/'', ''/homedetails/2_zpid/''] 3),
      (single_text, search_data [''/homedetails/3_zpid/''] 1),
      (spaced_text, search_data [''/homedetails/1_zpid/'', ''/homedetails/1_zpid/ ''] 1),
      (''{"pagination": {}, "filterState": {"sort": {"value": "days"}}}'', area_state),
      (''{"pagination": {}, "filterState": {"sort": {"value": "days"}, "price": {"min": 0, "max": 300000}, "mp": {"min": 0}}}'',
         priced (0, Some 300000)),
      (''{"pagination": {}, "filterState": {"sort": {"value": "days"}, "price": {"min": 300001, "max": 400000}, "mp": {"min": 0}}}'',
         priced (300001, Some 400000)),
      (''{"pagination": {}, "filterState": {"sort": {"value": "days"}, "price": {"min": 400001, "max": 450000}, "mp": {"min": 0}}}'',
         priced (400001, Some 450000)),
      (''{"pagination": {}, "filterState": {"sort": {"value": "days"}, "price": {"min": 450001, "max": 500000}, "mp": {"min": 0}}}'',
         priced (450001, Some 500000)),
      (''{"pagination": {}, "filterState": {"sort": {"value": "days"}, "price": {"min": 500001, "max": 600000}, "mp": {"min": 0}}}'',
         priced (500001, Some 600000)),
      (''{"pagination": {}, "filterState": {"sort": {"value": "days"}, "price": {"min": 600001, "max": 800000}, "mp": {"min": 0}}}'',
         priced (600001, Some 800000)),
      (''{"pagination": {}, "filterState": {"sort": {"value": "days"}, "price": {"min": 800001}, "mp": {"min": 0}}}'',
         priced (800001, None))]\<close>


definition direct_answer :: answers where
  "direct_answer fetched url =
     (if fetched = [] then (Some (script_page small_text), None)
      else (Some (script_page single_text), None))"

definition failing_answer :: answers where
  "failing_answer fetched url =
     (if fetched = [] then (Some (script_page big_text), None)
      else (None, Some ''503: Service Unavailable''))"

definition spaced_answer :: answers where
  "spaced_answer fetched url = (Some (script_page spaced_text), None)"

text \<open>
  The URL of the first price band, and of its first bedroom band, for the area above.
\<close>

definition first_filtered_url :: string where
  "first_filtered_url =
     ''https://www.zillow.com/homes/02118_rb/?searchQueryState=''
       @ py_quote (py_dumps (priced (0, Some 300000)))"

definition first_facet_url :: string where
  "first_facet_url =
     ''https://www.zillow.com/homes/02118_rb/?searchQueryState=''
       @ py_quote (py_dumps (JObj [(''pagination'', JObj []),
           (''filterState'', JObj [(''sort'', JObj [(''value'', JStr ''days'')]),
                                   (''price'', range_filter 0 (Some 300000)),
                                   (''mp'', range_filter 0 None),
                                   (''beds'', range_filter 0 (Some 0))])]))"


text \<open>
  A listing page with every field, and one whose description ends with a dollar sign.
\<close>

definition listing_page :: string where
  \<open>listing_page = ''<html><head><title>12 Elm St, Boston, MA 02118 | MLS #73212345 | Zillow</title><meta name="description" content="Zillow has 25 photos of this $650,000 2 beds, 1 bath home"></head><body><dl class="StyledOverviewStats"><dt><strong>3 days</strong></dt><dt><strong>412</strong></dt><dt><strong>17</strong></dt></dl></body></html>''\<close>

definition listing_soup :: soup where
  "listing_soup =
     \<lparr>title_text = Some ''12 Elm St, Boston, MA 02118 | MLS #73212345 | Zillow'',
      meta_description = Some (Some ''Zillow has 25 photos of this $650,000 2 beds, 1 bath home''),
      overview_stats = Some [\<lparr>dt_class = None, strong_text = Some ''3 days''\<rparr>,
                             \<lparr>dt_class = None, strong_text = Some ''412''\<rparr>,
                             \<lparr>dt_class = None, strong_text = Some ''17''\<rparr>],
      next_data = None\<rparr>"

definition unpriced_page :: string where
  \<open>unpriced_page = ''<html><head><title>12 Elm St, Boston, MA 02118 | MLS #73212345 | Zillow</title><meta name="description" content="Contact the agent for the price in US$"></head><body></body></html>''\<close>

definition unpriced_soup :: soup where
  "unpriced_soup =
     \<lparr>title_text = Some ''12 Elm St, Boston, MA 02118 | MLS #73212345 | Zillow'',
      meta_description = Some (Some ''Contact the agent for the price in US$''),
      overview_stats = None, next_data = None\<rparr>"

definition listing_lib :: lib where
  "listing_lib = table_lib [(listing_page, listing_soup), (unpriced_page, unpriced_soup)] []"










section \<open>Properties\<close>

subsection \<open>The fetch client\<close>

lemma fetch_loop_status_step:
  "\<lbrakk> retry_count < max_retries; upstream tr url = Response status_code reason body;
     status_code \<in> {429, 503, 520}; 0 \<le> retry_delay \<rbrakk>
   \<Longrightarrow> fetch_loop upstream url max_retries retry_count retry_delay prev tr =
       fetch_loop upstream url max_retries (retry_count + 1) (retry_delay * 2)
         (Some (str_int status_code @ '': '' @ reason)) (tr @ [Post url, Sleep retry_delay])"
  by (subst fetch_loop.simps) (simp del: insert_iff add: Let_def)


lemma fetch_loop_exhausted:
  "\<not> retry_count < max_retries \<Longrightarrow>
     fetch_loop upstream url max_retries retry_count retry_delay prev tr = ((None, prev), tr)"
  by (subst fetch_loop.simps) simp

lemma str_int_429: "str_int 429 = ''429''"
  by (simp add: str_int_def str_nat.simps digit_char_def)

text \<open>
  Claim C2. When every attempt on a URL is answered with HTTP 429, the fetch with the
  default budget and base delay calls the upstream exactly five times, sleeps 1, 2, 4, 8
  and 16 after the calls, and returns the failure pair \<open>(None, "429: reason")\<close> with
  the reason of the last response; it returns a value, so nothing is raised.
\<close>

theorem fetch_always_429:
  assumes always: "\<forall>tr. \<exists>reason body. upstream tr url = Response 429 reason body"
  shows "\<exists>reason body.
           upstream (tr @ [Post url, Sleep 1, Post url, Sleep 2, Post url, Sleep 4, Post url, Sleep 8]) url
             = Response 429 reason body \<and>
           fetch_html_with_zyte upstream url 5 1 tr =
             ((None, Some (''429: '' @ reason)),
              tr @ [Post url, Sleep 1, Post url, Sleep 2, Post url, Sleep 4, Post url, Sleep 8,
                    Post url, Sleep 16])"
proof -
  let ?t1 = "tr @ [Post url, Sleep 1]"
  let ?t2 = "?t1 @ [Post url, Sleep 2]"
  let ?t3 = "?t2 @ [Post url, Sleep 4]"
  let ?t4 = "?t3 @ [Post url, Sleep 8]"
  let ?t5 = "?t4 @ [Post url, Sleep 16]"
  obtain r0 b0 where o0: "upstream tr url = Response 429 r0 b0" using always by blast
  obtain r1 b1 where o1: "upstream ?t1 url = Response 429 r1 b1" using always by blast
  obtain r2 b2 where o2: "upstream ?t2 url = Response 429 r2 b2" using always by blast
  obtain r3 b3 where o3: "upstream ?t3 url = Response 429 r3 b3" using always by blast
  obtain r4 b4 where o4: "upstream ?t4 url = Response 429 r4 b4" using always by blast
  have "fetch_html_with_zyte upstream url 5 1 tr = fetch_loop upstream url 5 0 1 None tr"
    by (simp add: fetch_html_with_zyte_def)
  also have "\<dots> = fetch_loop upstream url 5 1 2 (Some (''429: '' @ r0)) ?t1"
    using fetch_loop_status_step [of 0 5 upstream tr url 429 r0 b0 1 None] o0
    by (simp add: str_int_429)
  also have "\<dots> = fetch_loop upstream url 5 2 4 (Some (''429: '' @ r1)) ?t2"
    using fetch_loop_status_step [of 1 5 upstream ?t1 url 429 r1 b1 2] o1
    by (simp add: str_int_429)
  also have "\<dots> = fetch_loop upstream url 5 3 8 (Some (''429: '' @ r2)) ?t3"
    using fetch_loop_status_step [of 2 5 upstream ?t2 url 429 r2 b2 4] o2
    by (simp add: str_int_429)
  also have "\<dots> = fetch_loop upstream url 5 4 16 (Some (''429: '' @ r3)) ?t4"
    using fetch_loop_status_step [of 3 5 upstream ?t3 url 429 r3 b3 8] o3
    by (simp add: str_int_429)
  also have "\<dots> = fetch_loop upstream url 5 5 32 (Some (''429: '' @ r4)) ?t5"
    using fetch_loop_status_step [of 4 5 upstream ?t4 url 429 r4 b4 16] o4
    by (simp add: str_int_429)
  also have "\<dots> = ((None, Some (''429: '' @ r4)), ?t5)"
    by (rule fetch_loop_exhausted) simp
  finally have "fetch_html_with_zyte upstream url 5 1 tr = ((None, Some (''429: '' @ r4)), ?t5)" .
  with o4 show ?thesis by auto
qed

theorem fetch_always_429_witness:
  "\<exists>reason body.
     (\<lambda>tr u. Response 429 ''Too Many Requests'' (BodyText []))
        ([] @ [Post ''u'', Sleep 1, Post ''u'', Sleep 2, Post ''u'', Sleep 4, Post ''u'', Sleep 8]) ''u''
       = Response 429 reason body \<and>
     fetch_html_with_zyte (\<lambda>tr u. Response 429 ''Too Many Requests'' (BodyText [])) ''u'' 5 1 [] =
       ((None, Some (''429: '' @ reason)),
        [] @ [Post ''u'', Sleep 1, Post ''u'', Sleep 2, Post ''u'', Sleep 4, Post ''u'', Sleep 8,
              Post ''u'', Sleep 16])"
  using fetch_always_429 [of "\<lambda>tr u. Response 429 ''Too Many Requests'' (BodyText [])" "''u''" "[]"]
  by simp





subsection \<open>The parsers of a search page\<close>

text \<open>
  Claim C4. On a page without the \<open>__NEXT_DATA__\<close> script tag, \<open>parse_properties\<close>
  returns \<open>None\<close> and both query-state parsers return \<open>(None, None)\<close>, but
  \<open>total_pages\<close> raises \<open>AttributeError\<close>: it reads \<open>data_script.string\<close> without
  the test its siblings make.
\<close>

theorem total_pages_without_block:
  assumes "next_data (BeautifulSoup L h) = None"
  shows "total_pages L (Some h) = Inl AttributeError \<and>
         parse_properties L (Some h) = Inr None \<and>
         parse_queryState L (Some h) = Inr (None, None) \<and>
         parse_soldQueryState L (Some h) = Inr (None, None)"
  using assms
  by (simp add: total_pages_def parse_properties_def parse_queryState_def parse_soldQueryState_def
        parse_state_with_def find_next_data_def)

theorem total_pages_without_block_witness:
  "next_data (BeautifulSoup (table_lib [] []) ''<html><body>No results</body></html>'') = None \<and>
   total_pages (table_lib [] []) (Some ''<html><body>No results</body></html>'') = Inl AttributeError \<and>
   parse_properties (table_lib [] []) (Some ''<html><body>No results</body></html>'') = Inr None \<and>
   parse_queryState (table_lib [] []) (Some ''<html><body>No results</body></html>'') = Inr (None, None) \<and>
   parse_soldQueryState (table_lib [] []) (Some ''<html><body>No results</body></html>'') =
     Inr (None, None)"
  using total_pages_without_block [of "table_lib [] []" "''<html><body>No results</body></html>''"]
  by (simp add: table_lib_def no_tags_def)

subsection \<open>The search-state codec\<close>

lemmas prim_defs = dumps_str_def escape_char_def quote_safe_def hex_digit_def hex_value_def
  lower_hex_digit_def char_of_def bit_Suc_0_iff str_int_def digit_char_def str_nat.simps Let_def

lemmas codec_defs = update_url_with_price_def update_url_with_beds_def update_url_with_page_def
  split_search_url_def py_split_def py_rstrip_def url_sep_def set_filter_def range_filter_def

lemma split_on_skip:
  "\<lbrakk> sep \<noteq> []; \<forall>j<length p. \<not> prefix sep (drop j (p @ sep @ rest)) \<rbrakk>
   \<Longrightarrow> split_on sep cur (p @ sep @ rest) = (cur @ p) # split_on sep [] rest"
proof (induction p arbitrary: cur)
  case Nil
  then obtain c cs where sep: "sep = c # cs" by (cases sep) auto
  have "split_on sep cur (sep @ rest) = cur # split_on sep [] (drop (length sep) (sep @ rest))"
    unfolding sep by simp
  then show ?case by simp
next
  case (Cons a p)
  have no0: "\<not> prefix sep ((a # p) @ sep @ rest)"
    using Cons.prems(2) by (metis drop0 length_greater_0_conv list.distinct(1))
  have rest: "\<forall>j<length p. \<not> prefix sep (drop j (p @ sep @ rest))"
  proof (intro allI impI)
    fix j assume "j < length p"
    then have "\<not> prefix sep (drop (Suc j) ((a # p) @ sep @ rest))"
      using Cons.prems(2) by (metis Suc_less_eq length_Cons)
    then show "\<not> prefix sep (drop j (p @ sep @ rest))" by simp
  qed
  have "split_on sep cur ((a # p) @ sep @ rest) = split_on sep (cur @ [a]) (p @ sep @ rest)"
    using no0 by simp
  also have "\<dots> = ((cur @ [a]) @ p) # split_on sep [] rest"
    using Cons.IH [OF Cons.prems(1) rest] .
  finally show ?case by simp
qed

lemma split_on_none:
  "\<forall>j<length s. \<not> prefix sep (drop j s) \<Longrightarrow> split_on sep cur s = [cur @ s]"
proof (induction s arbitrary: cur)
  case Nil
  then show ?case by simp
next
  case (Cons a s)
  have no0: "\<not> prefix sep (a # s)"
    using Cons.prems by (metis drop0 length_greater_0_conv list.distinct(1))
  have rest: "\<forall>j<length s. \<not> prefix sep (drop j s)"
  proof (intro allI impI)
    fix j assume "j < length s"
    then have "\<not> prefix sep (drop (Suc j) (a # s))"
      using Cons.prems by (metis Suc_less_eq length_Cons)
    then show "\<not> prefix sep (drop j s)" by simp
  qed
  show ?case using no0 Cons.IH [OF rest, of "cur @ [a]"] by simp
qed

lemma split_on_hd:
  "sep \<noteq> [] \<Longrightarrow>
     \<exists>p. hd (split_on sep cur s) = cur @ p \<and> prefix p s \<and> (\<forall>j<length p. \<not> prefix sep (drop j s))"
proof (induction s arbitrary: cur)
  case Nil
  then show ?case by simp
next
  case (Cons a s)
  show ?case
  proof (cases "prefix sep (a # s)")
    case True
    then have "hd (split_on sep cur (a # s)) = cur @ []" using Cons.prems by simp
    then show ?thesis by (intro exI [of _ "[]"]) simp
  next
    case False
    obtain p where p: "hd (split_on sep (cur @ [a]) s) = (cur @ [a]) @ p" "prefix p s"
        "\<forall>j<length p. \<not> prefix sep (drop j s)"
      using Cons.IH [OF Cons.prems] by blast
    have "\<forall>j<length (a # p). \<not> prefix sep (drop j (a # s))"
    proof (intro allI impI)
      fix j assume j: "j < length (a # p)"
      show "\<not> prefix sep (drop j (a # s))"
      proof (cases j)
        case 0
        then show ?thesis using False by simp
      next
        case (Suc k)
        then show ?thesis using j p(3) by simp
      qed
    qed
    moreover have "hd (split_on sep cur (a # s)) = cur @ (a # p)" using False p(1) by simp
    moreover have "prefix (a # p) (a # s)" using p(2) by simp
    ultimately show ?thesis by blast
  qed
qed

lemma py_rstrip_prefix: "prefix (py_rstrip chars s) s"
proof -
  have "rev s = takeWhile (\<lambda>c. c \<in> set chars) (rev s) @ dropWhile (\<lambda>c. c \<in> set chars) (rev s)"
    by simp
  then have "s = rev (dropWhile (\<lambda>c. c \<in> set chars) (rev s)) @ rev (takeWhile (\<lambda>c. c \<in> set chars) (rev s))"
    by (metis rev_append rev_rev_ident)
  then show ?thesis unfolding py_rstrip_def by (metis prefixI)
qed

lemma py_rstrip_again: "py_rstrip ''/'' (py_rstrip ''/'' s @ ''/'') = py_rstrip ''/'' s"
proof -
  have "dropWhile (\<lambda>c. c \<in> set ''/'') (dropWhile (\<lambda>c. c \<in> set ''/'') (rev s))
          = dropWhile (\<lambda>c. c \<in> set ''/'') (rev s)"
    by (metis dropWhile_idem)
  then show ?thesis by (simp add: py_rstrip_def)
qed

lemma url_sep_no_slash: "CHR ''/'' \<notin> set url_sep"
  by (simp add: url_sep_def)

lemma url_sep_hd: "prefix url_sep x \<Longrightarrow> CHR ''?'' \<in> set x"
  by (auto simp: url_sep_def prefix_def)

lemma rebuilt_sep_free:
  assumes pre: "prefix p s" and free: "\<forall>j<length p. \<not> prefix url_sep (drop j s)"
  shows "\<forall>j<length (py_rstrip ''/'' p @ ''/'').
           \<not> prefix url_sep (drop j ((py_rstrip ''/'' p @ ''/'') @ url_sep @ enc))"
proof (intro allI impI notI)
  let ?rp = "py_rstrip ''/'' p"
  fix j
  assume j: "j < length (?rp @ ''/'')"
    and occ: "prefix url_sep (drop j ((?rp @ ''/'') @ url_sep @ enc))"
  have jle: "j \<le> length ?rp" using j by simp
  have rp_p: "prefix ?rp p" by (rule py_rstrip_prefix)
  then have rp_s: "prefix ?rp s" using pre by (rule prefix_order.trans)
  have dropj: "drop j ((?rp @ ''/'') @ url_sep @ enc) = drop j ?rp @ ''/'' @ url_sep @ enc"
    using jle by simp
  show False
  proof (cases "length ?rp - j < length url_sep")
    case True
    have "(drop j ?rp @ ''/'' @ url_sep @ enc) ! (length ?rp - j) = CHR ''/''"
      by (simp add: nth_append)
    moreover have "(drop j ?rp @ ''/'' @ url_sep @ enc) ! (length ?rp - j) = url_sep ! (length ?rp - j)"
    proof -
      obtain zs where zs: "drop j ?rp @ ''/'' @ url_sep @ enc = url_sep @ zs"
        using occ unfolding dropj by (auto simp: prefix_def)
      show ?thesis unfolding zs using True by (simp add: nth_append)
    qed
    ultimately have "url_sep ! (length ?rp - j) = CHR ''/''" by simp
    then have "CHR ''/'' \<in> set url_sep" using True by (metis nth_mem)
    then show False using url_sep_no_slash by simp
  next
    case False
    then have len: "length url_sep \<le> length (drop j ?rp)" by simp
    have "prefix url_sep (drop j ?rp)"
      using occ len unfolding dropj by (metis prefix_length_prefix prefixI)
    moreover have "prefix (drop j ?rp) (drop j s)"
      using rp_s by (auto simp: prefix_def)
    ultimately have "prefix url_sep (drop j s)" by (rule prefix_order.trans)
    moreover have "j < length p"
    proof -
      have pos: "0 < length url_sep" by (simp add: url_sep_def)
      have len': "length url_sep \<le> length ?rp - j" using len by simp
      have "j < length ?rp" using pos len' by linarith
      moreover have "length ?rp \<le> length p" using rp_p by (rule prefix_length_le)
      ultimately show ?thesis by simp
    qed
    ultimately show False using free by blast
  qed
qed

lemma split_search_url_base_part:
  assumes "split_search_url L url = Inr (bp, s)"
  shows "\<exists>p. bp = py_rstrip ''/'' p \<and> prefix p url \<and> (\<forall>j<length p. \<not> prefix url_sep (drop j url))"
proof -
  have sep: "url_sep \<noteq> []" by (simp add: url_sep_def)
  obtain p where p: "hd (split_on url_sep [] url) = [] @ p" "prefix p url"
      "\<forall>j<length p. \<not> prefix url_sep (drop j url)"
    using split_on_hd [OF sep, of "[]" url] by blast
  have "bp = py_rstrip ''/'' (hd (py_split url_sep url))"
    using assms by (auto simp: split_search_url_def Let_def split: if_splits option.splits)
  then show ?thesis using p by (auto simp: py_split_def)
qed

lemma split_search_url_rebuilt:
  assumes split: "split_search_url L url = Inr (bp, s)"
    and enc: "CHR ''?'' \<notin> set enc"
    and loads: "json_loads L (unquote L enc) = Some s'"
  shows "split_search_url L (bp @ ''/?searchQueryState='' @ enc) = Inr (bp, s')"
proof -
  obtain p where p: "bp = py_rstrip ''/'' p" "prefix p url"
      "\<forall>j<length p. \<not> prefix url_sep (drop j url)"
    using split_search_url_base_part [OF split] by blast
  have sep: "url_sep \<noteq> []" by (simp add: url_sep_def)
  define u where "u = bp @ ''/?searchQueryState='' @ enc"
  have url: "u = (bp @ ''/'') @ url_sep @ enc"
    by (simp add: u_def url_sep_def)
  have free: "\<forall>j<length (bp @ ''/''). \<not> prefix url_sep (drop j ((bp @ ''/'') @ url_sep @ enc))"
    unfolding p(1) using rebuilt_sep_free [OF p(2) p(3)] .
  have enc_free: "\<forall>j<length enc. \<not> prefix url_sep (drop j enc)"
  proof (intro allI impI notI)
    fix j assume "j < length enc" "prefix url_sep (drop j enc)"
    then have "CHR ''?'' \<in> set (drop j enc)" by (simp add: url_sep_hd)
    then show False using enc by (meson in_set_dropD)
  qed
  have parts: "py_split url_sep u = [bp @ ''/'', enc]"
    unfolding url py_split_def
    using split_on_skip [OF sep free, of "[]"] split_on_none [OF enc_free, of "[]"] by simp
  have "py_rstrip ''/'' (bp @ ''/'') = bp"
    unfolding p(1) by (rule py_rstrip_again)
  then have "split_search_url L u = Inr (bp, s')"
    using loads by (simp add: split_search_url_def parts)
  then show ?thesis unfolding u_def .
qed

lemma set_filter_dict:
  "map_of kvs ''filterState'' = Some (JObj fs) \<Longrightarrow>
     set_filter (JObj kvs) name v =
       Inr (JObj (AList.update ''filterState'' (JObj (AList.update name v fs)) kvs))"
  by (simp add: set_filter_def)

lemma map_of_update: "map_of (AList.update k v al) k' = (if k' = k then Some v else map_of al k')"
  by (simp add: update_conv')

lemma py_quote_no_qmark: "CHR ''?'' \<notin> set (py_quote s)"
proof (induction s)
  case Nil
  then show ?case by simp
next
  case (Cons c s)
  have safe: "quote_safe c \<Longrightarrow> c \<noteq> CHR ''?''"
    by (auto simp: quote_safe_def Let_def)
  have hex: "n < 16 \<Longrightarrow> hex_digit n \<noteq> CHR ''?''" for n
  proof -
    assume "n < 16"
    then have "hex_digit n \<in> set ''0123456789ABCDEF''"
      unfolding hex_digit_def by (intro nth_mem) simp
    then show ?thesis by auto
  qed
  have "(of_char c :: nat) < 256" by (rule nat_of_char_less_256)
  then have "(of_char c :: nat) div 16 < 16" "(of_char c :: nat) mod 16 < 16" by arith+
  then have "hex_digit (of_char c div 16) \<noteq> CHR ''?''" "hex_digit (of_char c mod 16) \<noteq> CHR ''?''"
    by (simp_all add: hex)
  then show ?case using Cons safe by auto
qed

lemma update_url_with_price_decoded:
  assumes url: "split_search_url L url = Inr (base_part, JObj kvs)"
    and fs: "map_of kvs ''filterState'' = Some (JObj fs)"
    and fs': "fs' = AList.update ''mp'' (range_filter min_mp max_mp)
                      (AList.update ''price'' (range_filter min_price max_price) fs)"
    and s': "s' = JObj (AList.update ''filterState'' (JObj fs') kvs)"
  shows "update_url_with_price L url min_price max_price min_mp max_mp =
           Inr (base_part @ ''/?searchQueryState='' @ quote L (json_dumps L s'))"
    and "\<lbrakk> json_loads L (unquote L (quote L (json_dumps L s'))) = Some s';
           CHR ''?'' \<notin> set (quote L (json_dumps L s')) \<rbrakk>
         \<Longrightarrow> split_search_url L (base_part @ ''/?searchQueryState='' @ quote L (json_dumps L s'))
               = Inr (base_part, s')"
proof -
  let ?fs1 = "AList.update ''price'' (range_filter min_price max_price) fs"
  let ?kvs1 = "AList.update ''filterState'' (JObj ?fs1) kvs"
  have st1: "set_filter (JObj kvs) ''price'' (range_filter min_price max_price) = Inr (JObj ?kvs1)"
    using fs by (rule set_filter_dict)
  have fs1: "map_of ?kvs1 ''filterState'' = Some (JObj ?fs1)"
    by (simp add: map_of_update)
  have upd: "AList.update ''filterState'' (JObj fs') ?kvs1 = AList.update ''filterState'' (JObj fs') kvs"
    by (rule update_last)
  have st2: "set_filter (JObj ?kvs1) ''mp'' (range_filter min_mp max_mp) = Inr s'"
    using set_filter_dict [OF fs1, of "''mp''" "range_filter min_mp max_mp"] upd
    by (simp add: s' fs')
  show "update_url_with_price L url min_price max_price min_mp max_mp =
      Inr (base_part @ ''/?searchQueryState='' @ quote L (json_dumps L s'))"
    by (simp add: update_url_with_price_def url st1 st2)
  show "\<lbrakk> json_loads L (unquote L (quote L (json_dumps L s'))) = Some s';
           CHR ''?'' \<notin> set (quote L (json_dumps L s')) \<rbrakk>
         \<Longrightarrow> split_search_url L (base_part @ ''/?searchQueryState='' @ quote L (json_dumps L s'))
               = Inr (base_part, s')"
    using url by (rule split_search_url_rebuilt)
qed

text \<open>
  Claim C8, as the code has it. Let a URL carry a decodable state whose filter state is
  a dict, and let the library read back the state that is written. Then
  \<open>update_url_with_price\<close> returns a URL that decodes to the same base part and to a
  state in which the price filter is exactly the given range, the monthly-payment filter
  \<open>mp\<close> is exactly the given payment range (\<open>{"min": 0}\<close> by default), every
  other filter and every other top-level field (the page cursor among them) is as it
  was, and the top-level keys keep their order.
\<close>

theorem update_url_with_price_frame:
  assumes url: "split_search_url L url = Inr (base_part, JObj kvs)"
    and fs: "map_of kvs ''filterState'' = Some (JObj fs)"
    and fs': "fs' = AList.update ''mp'' (range_filter min_mp max_mp)
                      (AList.update ''price'' (range_filter min_price max_price) fs)"
    and s': "s' = JObj (AList.update ''filterState'' (JObj fs') kvs)"
    and rt: "json_loads L (unquote L (quote L (json_dumps L s'))) = Some s'"
    and q: "CHR ''?'' \<notin> set (quote L (json_dumps L s'))"
  shows "(\<exists>url'. update_url_with_price L url min_price max_price min_mp max_mp = Inr url' \<and>
                 split_search_url L url' = Inr (base_part, s')) \<and>
         py_getpath s' [''filterState'', ''price''] = Inr (range_filter min_price max_price) \<and>
         py_getpath s' [''filterState'', ''mp''] = Inr (range_filter min_mp max_mp) \<and>
         (\<forall>k. k \<noteq> ''price'' \<and> k \<noteq> ''mp'' \<longrightarrow>
              py_getpath s' [''filterState'', k] = py_getpath (JObj kvs) [''filterState'', k]) \<and>
         (\<forall>k. k \<noteq> ''filterState'' \<longrightarrow> py_getitem s' k = py_getitem (JObj kvs) k) \<and>
         map fst (AList.update ''filterState'' (JObj fs') kvs) = map fst kvs"
proof -
  note dec = update_url_with_price_decoded [OF url fs fs' s']
  have keys: "map fst (AList.update ''filterState'' (JObj fs') kvs) = map fst kvs"
  proof -
    have "(''filterState'', JObj fs) \<in> set kvs" using fs by (rule map_of_SomeD)
    then have "''filterState'' \<in> fst ` set kvs" by force
    then show ?thesis by (simp add: update_keys)
  qed
  show ?thesis
    using dec(1) dec(2) [OF rt q] keys
    by (simp add: s' fs' map_of_update fs del: AList.update.simps split: option.splits)
qed

lemma mp_split:
  "split_search_url mp_lib mp_url = Inr (''https://www.zillow.com/homes/02118_rb'', mp_state)"
  by (simp add: mp_lib_def table_lib_def mp_url_def mp_state_def mp_state_after_def
        split_search_url_def py_split_def py_rstrip_def url_sep_def range_filter_def prim_defs)

lemma mp_roundtrip:
  "json_loads mp_lib (unquote mp_lib (quote mp_lib (json_dumps mp_lib mp_state_after)))
     = Some mp_state_after"
  by (simp add: mp_lib_def table_lib_def mp_state_def mp_state_after_def range_filter_def prim_defs)

lemma mp_no_qmark: "CHR ''?'' \<notin> set (quote mp_lib x)"
  by (simp add: mp_lib_def table_lib_def py_quote_no_qmark)

lemma mp_quote_dumps: "quote mp_lib (json_dumps mp_lib x) = py_quote (py_dumps x)"
  by (simp add: mp_lib_def table_lib_def)

theorem update_url_with_price_frame_witness:
  "split_search_url mp_lib mp_url = Inr (''https://www.zillow.com/homes/02118_rb'', mp_state) \<and>
   (\<exists>url'. update_url_with_price mp_lib mp_url 0 (Some 300000) 0 None = Inr url' \<and>
           split_search_url mp_lib url' = Inr (''https://www.zillow.com/homes/02118_rb'', mp_state_after)) \<and>
   py_getpath mp_state_after [''filterState'', ''price''] = Inr (range_filter 0 (Some 300000)) \<and>
   py_getpath mp_state_after [''filterState'', ''mp''] = Inr (range_filter 0 None) \<and>
   py_getpath mp_state_after [''filterState'', ''beds''] = py_getpath mp_state [''filterState'', ''beds''] \<and>
   py_getitem mp_state_after ''pagination'' = py_getitem mp_state ''pagination''"
proof -
  let ?kvs = "[(''pagination'', JObj [(''currentPage'', JInt 2)]),
               (''filterState'', JObj [(''mp'', range_filter 1000 (Some 2000)),
                                       (''beds'', range_filter 2 None)])]"
  let ?fs = "[(''mp'', range_filter 1000 (Some 2000)), (''beds'', range_filter 2 None)]"
  have url: "split_search_url mp_lib mp_url = Inr (''https://www.zillow.com/homes/02118_rb'', JObj ?kvs)"
    using mp_split by (simp add: mp_state_def)
  have fs: "map_of ?kvs ''filterState'' = Some (JObj ?fs)" by simp
  have s': "mp_state_after = JObj (AList.update ''filterState''
              (JObj (AList.update ''mp'' (range_filter 0 None)
                       (AList.update ''price'' (range_filter 0 (Some 300000)) ?fs))) ?kvs)"
    by (simp add: mp_state_after_def)
  show ?thesis
    using update_url_with_price_frame [OF url fs refl s' mp_roundtrip mp_no_qmark] mp_split
    by (simp add: mp_state_def mp_state_after_def)
qed

text \<open>
  Claim C8 as the specification words it fails: the call overwrites the
  monthly-payment filter, which it was not asked to change. A state with
  \<open>"mp": {"min": 1000, "max": 2000}\<close> decodes to \<open>"mp": {"min": 0}\<close> after
  \<open>update_url_with_price(url, 0, 300000)\<close>.
\<close>

theorem update_url_with_price_resets_mp:
  "split_search_url mp_lib mp_url = Inr (''https://www.zillow.com/homes/02118_rb'', mp_state) \<and>
   update_url_with_price mp_lib mp_url 0 (Some 300000) 0 None = Inr mp_url_after \<and>
   split_search_url mp_lib mp_url_after = Inr (''https://www.zillow.com/homes/02118_rb'', mp_state_after) \<and>
   py_getpath mp_state [''filterState'', ''mp''] = Inr (range_filter 1000 (Some 2000)) \<and>
   py_getpath mp_state_after [''filterState'', ''mp''] = Inr (range_filter 0 None) \<and>
   range_filter 0 None \<noteq> range_filter 1000 (Some 2000)"
proof -
  let ?kvs = "[(''pagination'', JObj [(''currentPage'', JInt 2)]),
               (''filterState'', JObj [(''mp'', range_filter 1000 (Some 2000)),
                                       (''beds'', range_filter 2 None)])]"
  let ?fs = "[(''mp'', range_filter 1000 (Some 2000)), (''beds'', range_filter 2 None)]"
  have url: "split_search_url mp_lib mp_url = Inr (''https://www.zillow.com/homes/02118_rb'', JObj ?kvs)"
    using mp_split by (simp add: mp_state_def)
  have fs: "map_of ?kvs ''filterState'' = Some (JObj ?fs)" by simp
  have s': "mp_state_after = JObj (AList.update ''filterState''
              (JObj (AList.update ''mp'' (range_filter 0 None)
                       (AList.update ''price'' (range_filter 0 (Some 300000)) ?fs))) ?kvs)"
    by (simp add: mp_state_after_def)
  note dec = update_url_with_price_decoded [OF url fs refl s']
  have "update_url_with_price mp_lib mp_url 0 (Some 300000) 0 None = Inr mp_url_after"
    using dec(1) by (simp add: mp_url_after_def mp_quote_dumps)
  moreover have "split_search_url mp_lib mp_url_after
      = Inr (''https://www.zillow.com/homes/02118_rb'', mp_state_after)"
    using dec(2) [OF mp_roundtrip mp_no_qmark] by (simp add: mp_url_after_def mp_quote_dumps)
  ultimately show ?thesis
    using mp_split by (simp add: mp_state_def mp_state_after_def range_filter_def)
qed

subsection \<open>The discovery walk\<close>




lemma recorded_apply: "recorded answer url fetched = (answer fetched url, fetched @ [url])"
  by (simp add: recorded_def)

lemma scrape_pages_Cons:
  "\<lbrakk> update_url_with_page L url p = Inr u; fetch u w = ((html, err), w1) \<rbrakk> \<Longrightarrow>
     scrape_pages L fetch url (p # pages) acc w =
       (if truthy_str html then
          (case parse_properties L html of
             Inl e \<Rightarrow> (Inl e, w1)
           | Inr ls \<Rightarrow> scrape_pages L fetch url pages (extend_if acc ls) w1)
        else scrape_pages L fetch url pages acc w1)"
  by simp







lemma scrape_walk_unfold:
  "\<lbrakk> fetch base_url w = ((Some html, err), w1); html \<noteq> []; total_pages L (Some html) = Inr c;
     py_int c = Inr n \<rbrakk> \<Longrightarrow>
   scrape_walk L fetch base_url w =
     (case parse_properties L (Some html) of
        Inl e \<Rightarrow> (([], Some e), w1)
      | Inr links \<Rightarrow>
          (if n \<ge> 20 then price_loop L fetch base_url price_filters (extend_if [] links) w1
           else (case scrape_all_pages L fetch base_url c w1 of
                   (Inl e, w2) \<Rightarrow> ((extend_if [] links, Some e), w2)
                 | (Inr page_links, w2) \<Rightarrow> ((extend_if [] links @ page_links, None), w2))))"
  by (simp add: scrape_walk_def truthy_str_def Let_def split: sum.splits)




lemma scrape_all_pages_single:
  "\<lbrakk> py_int c = Inr n; n < 2 \<rbrakk> \<Longrightarrow> scrape_all_pages L fetch url c w = (Inr [], w)"
  by (simp add: scrape_all_pages_def)

lemma update_url_with_beds_decoded:
  "\<lbrakk> split_search_url L fu = Inr (bp, JObj kvs); map_of kvs ''filterState'' = Some (JObj fs) \<rbrakk> \<Longrightarrow>
     update_url_with_beds L fu lo hi =
       Inr (bp @ ''/?searchQueryState='' @ quote L (json_dumps L
              (JObj (AList.update ''filterState''
                 (JObj (AList.update ''beds'' (range_filter lo hi) fs)) kvs))))"
  by (simp add: update_url_with_beds_def set_filter_dict del: AList.update.simps)



lemmas area_defs = area_lib_def table_lib_def script_page_def script_soup_def no_tags_def
  big_text_def small_text_def single_text_def spaced_text_def search_data_def

lemmas parse_defs = total_pages_def parse_properties_def find_next_data_def loads_script_def

lemma big_page:
  "total_pages area_lib (Some (script_page big_text)) = Inr (JInt 20)"
  "parse_properties area_lib (Some (script_page big_text)) =
     Inr (Some [JStr ''/homedetails/1_zpid/'', JStr ''/homedetails/2_zpid/''])"
  by (simp_all add: area_defs parse_defs)

lemma small_page:
  "total_pages area_lib (Some (script_page small_text)) = Inr (JInt 3)"
  "parse_properties area_lib (Some (script_page small_text)) =
     Inr (Some [JStr ''/homedetails/1_zpid/'', JStr ''/homedetails/2_zpid/''])"
  by (simp_all add: area_defs parse_defs)

lemma single_page:
  "total_pages area_lib (Some (script_page single_text)) = Inr (JInt 1)"
  "parse_properties area_lib (Some (script_page single_text)) = Inr (Some [JStr ''/homedetails/3_zpid/''])"
  by (simp_all add: area_defs parse_defs)

lemma spaced_page:
  "total_pages area_lib (Some (script_page spaced_text)) = Inr (JInt 1)"
  "parse_properties area_lib (Some (script_page spaced_text)) =
     Inr (Some [JStr ''/homedetails/1_zpid/'', JStr ''/homedetails/1_zpid/ ''])"
  by (simp_all add: area_defs parse_defs)

lemma area_split:
  "split_search_url area_lib area_url = Inr (''https://www.zillow.com/homes/02118_rb'', area_state)"
  by (simp add: area_defs area_url_def split_search_url_def py_split_def py_rstrip_def url_sep_def prim_defs)

lemma area_lib_codec:
  "quote area_lib = py_quote" "json_dumps area_lib = py_dumps" "unquote area_lib = py_unquote"
  by (simp_all add: area_lib_def table_lib_def)

lemma area_roundtrip:
  "list_all (\<lambda>band. json_loads area_lib (py_unquote (py_quote (py_dumps (priced band))))
      = Some (priced band)) price_filters"
  by (simp add: price_filters_def priced_def range_filter_def area_defs prim_defs)

lemma area_priced:
  assumes "p \<in> set price_filters"
  shows "update_url_with_price area_lib area_url (fst p) (snd p) 0 None =
           Inr (''https://www.zillow.com/homes/02118_rb/?searchQueryState=''
                  @ py_quote (py_dumps (priced p)))"
    and "split_search_url area_lib
           (''https://www.zillow.com/homes/02118_rb/?searchQueryState='' @ py_quote (py_dumps (priced p)))
         = Inr (''https://www.zillow.com/homes/02118_rb'', priced p)"
proof -
  let ?fs = "[(''sort'', JObj [(''value'', JStr ''days'')])]"
  let ?kvs = "[(''pagination'', JObj []), (''filterState'', JObj ?fs)]"
  have url: "split_search_url area_lib area_url = Inr (''https://www.zillow.com/homes/02118_rb'', JObj ?kvs)"
    using area_split by (simp add: area_state_def)
  have fs: "map_of ?kvs ''filterState'' = Some (JObj ?fs)" by simp
  have s': "priced p = JObj (AList.update ''filterState''
              (JObj (AList.update ''mp'' (range_filter 0 None)
                       (AList.update ''price'' (range_filter (fst p) (snd p)) ?fs))) ?kvs)"
    by (simp add: priced_def)
  note dec = update_url_with_price_decoded [OF url fs refl s']
  have rt: "json_loads area_lib (unquote area_lib (quote area_lib (json_dumps area_lib (priced p))))
      = Some (priced p)"
    using area_roundtrip assms by (simp add: list_all_iff area_lib_codec)
  have q: "CHR ''?'' \<notin> set (quote area_lib (json_dumps area_lib (priced p)))"
    by (simp add: area_lib_codec py_quote_no_qmark)
  show "update_url_with_price area_lib area_url (fst p) (snd p) 0 None =
           Inr (''https://www.zillow.com/homes/02118_rb/?searchQueryState=''
                  @ py_quote (py_dumps (priced p)))"
    using dec(1) by (simp add: area_lib_codec)
  show "split_search_url area_lib
           (''https://www.zillow.com/homes/02118_rb/?searchQueryState='' @ py_quote (py_dumps (priced p)))
         = Inr (''https://www.zillow.com/homes/02118_rb'', priced p)"
    using dec(2) [OF rt q] by (simp add: area_lib_codec)
qed





lemma update_url_with_page_decoded:
  "split_search_url L url = Inr (bp, JObj kvs) \<Longrightarrow>
     update_url_with_page L url p =
       Inr (bp @ ''/'' @ str_int p @ ''_p/?searchQueryState='' @ quote L (json_dumps L
              (JObj (AList.update ''pagination'' (JObj [(''currentPage'', JInt p)]) kvs))))"
  by (simp add: update_url_with_page_def del: AList.update.simps)

lemma direct_walk:
  "\<exists>fetched'. scrape_walk area_lib (recorded direct_answer) area_url [] =
     (([JStr ''/homedetails/1_zpid/'', JStr ''/homedetails/2_zpid/'', JStr ''/homedetails/3_zpid/'',
        JStr ''/homedetails/3_zpid/''], None), fetched')"
proof -
  have f: "recorded direct_answer area_url [] = ((Some (script_page small_text), None), [area_url])"
    by (simp add: recorded_apply direct_answer_def)
  have ne: "script_page small_text \<noteq> []" by (simp add: script_page_def)
  have n: "py_int (JInt 3) = Inr 3" by simp
  note unf = scrape_walk_unfold [where fetch="recorded direct_answer" and w="[]", OF f ne small_page(1) n]
  have split: "split_search_url area_lib area_url = Inr (''https://www.zillow.com/homes/02118_rb'',
      JObj [(''pagination'', JObj []), (''filterState'', JObj [(''sort'', JObj [(''value'', JStr ''days'')])])])"
    using area_split by (simp add: area_state_def)
  obtain u2 where u2: "update_url_with_page area_lib area_url 2 = Inr u2"
    using update_url_with_page_decoded [OF split] by blast
  obtain u3 where u3: "update_url_with_page area_lib area_url 3 = Inr u3"
    using update_url_with_page_decoded [OF split] by blast
  have f2: "recorded direct_answer u2 [area_url] = ((Some (script_page single_text), None), [area_url, u2])"
    by (simp add: recorded_apply direct_answer_def)
  have f3: "recorded direct_answer u3 [area_url, u2] =
      ((Some (script_page single_text), None), [area_url, u2, u3])"
    by (simp add: recorded_apply direct_answer_def)
  have t: "truthy_str (Some (script_page single_text))"
    by (simp add: truthy_str_def script_page_def)
  have pages: "scrape_all_pages area_lib (recorded direct_answer) area_url (JInt 3) [area_url] =
      (Inr [JStr ''/homedetails/3_zpid/'', JStr ''/homedetails/3_zpid/''], [area_url, u2, u3])"
    unfolding scrape_all_pages_def
    by (simp add: scrape_pages_Cons [where fetch="recorded direct_answer", OF u2 f2]
          scrape_pages_Cons [where fetch="recorded direct_answer", OF u3 f3] t single_page(2)
          extend_if_def truthy_list_def upto.simps del: scrape_pages.simps(2))
  show ?thesis unfolding unf small_page(2) pages
    by (simp add: extend_if_def truthy_list_def)
qed


lemma page_fetch_failure_skipped:
  "\<lbrakk> update_url_with_page L base_url p = Inr url; fetch url w = ((None, err), w1) \<rbrakk> \<Longrightarrow>
     scrape_pages L fetch base_url (p # pages) acc w = scrape_pages L fetch base_url pages acc w1"
  by (simp add: truthy_str_def)

lemma price_loop_caught:
  "\<lbrakk> update_url_with_price L base_url lo hi 0 None = Inr fu;
     beds_loop L fetch fu bed_filters acc w = ((acc1, Some e), w1) \<rbrakk> \<Longrightarrow>
     price_loop L fetch base_url ((lo, hi) # prices) acc w = ((acc1, Some e), w1)"
  by simp

text \<open>
  Claim C5. A failed fetch of a page of a query is skipped and the next page is fetched
  (\<open>page_fetch_failure_skipped\<close>). A failed fetch of a sub-query is not: the inner
  loop calls \<open>total_pages(None)\<close>, which raises \<open>TypeError\<close>, and the walk ends
  there with the links it has; no later sub-query is fetched.
\<close>

theorem facet_fetch_failure_aborts:
  assumes "update_url_with_beds L filtered_url min_beds max_beds = Inr url"
    and "fetch url w = ((None, err), w1)"
  shows "beds_loop L fetch filtered_url ((min_beds, max_beds) # beds) all_links w =
           ((all_links, Some TypeError), w1)"
  using assms by (simp add: total_pages_def find_next_data_def)

theorem facet_fetch_failure_aborts_witness:
  "update_url_with_beds area_lib first_filtered_url 0 (Some 0) = Inr first_facet_url \<and>
   recorded failing_answer first_facet_url [area_url] =
     ((None, Some ''503: Service Unavailable''), [area_url, first_facet_url]) \<and>
   beds_loop area_lib (recorded failing_answer) first_filtered_url bed_filters
      [JStr ''/homedetails/1_zpid/'', JStr ''/homedetails/2_zpid/''] [area_url] =
     (([JStr ''/homedetails/1_zpid/'', JStr ''/homedetails/2_zpid/''], Some TypeError),
      [area_url, first_facet_url]) \<and>
   scrape_walk area_lib (recorded failing_answer) area_url [] =
     (([JStr ''/homedetails/1_zpid/'', JStr ''/homedetails/2_zpid/''], Some TypeError),
      [area_url, first_facet_url]) \<and>
   scrape_properties area_lib (recorded failing_answer) area_url [] =
     (Inr [JStr ''/homedetails/1_zpid/'', JStr ''/homedetails/2_zpid/''], [area_url, first_facet_url])"
proof -
  have p: "(0, Some 300000) \<in> set price_filters" by (simp add: price_filters_def)
  note first = area_priced [OF p]
  have fu: "update_url_with_price area_lib area_url 0 (Some 300000) 0 None = Inr first_filtered_url"
    using first(1) by (simp add: first_filtered_url_def)
  have split: "split_search_url area_lib first_filtered_url =
      Inr (''https://www.zillow.com/homes/02118_rb'',
           JObj [(''pagination'', JObj []),
                 (''filterState'', JObj [(''sort'', JObj [(''value'', JStr ''days'')]),
                                         (''price'', range_filter 0 (Some 300000)),
                                         (''mp'', range_filter 0 None)])])"
    using first(2) by (simp add: first_filtered_url_def priced_def)
  have u: "update_url_with_beds area_lib first_filtered_url 0 (Some 0) = Inr first_facet_url"
    using update_url_with_beds_decoded [OF split, of _ 0 "Some 0"]
    by (simp add: first_facet_url_def area_lib_codec)
  have f: "recorded failing_answer first_facet_url [area_url] =
     ((None, Some ''503: Service Unavailable''), [area_url, first_facet_url])"
    by (simp add: recorded_apply failing_answer_def)
  have beds: "beds_loop area_lib (recorded failing_answer) first_filtered_url bed_filters
      [JStr ''/homedetails/1_zpid/'', JStr ''/homedetails/2_zpid/''] [area_url] =
     (([JStr ''/homedetails/1_zpid/'', JStr ''/homedetails/2_zpid/''], Some TypeError),
      [area_url, first_facet_url])"
    unfolding bed_filters_def
    using facet_fetch_failure_aborts [where fetch="recorded failing_answer", OF u f] .
  have f0: "recorded failing_answer area_url [] = ((Some (script_page big_text), None), [area_url])"
    by (simp add: recorded_apply failing_answer_def)
  have ne: "script_page big_text \<noteq> []" by (simp add: script_page_def)
  have n: "py_int (JInt 20) = Inr 20" by simp
  note unf = scrape_walk_unfold [where fetch="recorded failing_answer" and w="[]", OF f0 ne big_page(1) n]
  have prices: "price_loop area_lib (recorded failing_answer) area_url price_filters
      [JStr ''/homedetails/1_zpid/'', JStr ''/homedetails/2_zpid/''] [area_url] =
     (([JStr ''/homedetails/1_zpid/'', JStr ''/homedetails/2_zpid/''], Some TypeError),
      [area_url, first_facet_url])"
    unfolding price_filters_def
    using price_loop_caught [where fetch="recorded failing_answer", OF fu beds] .
  have walk: "scrape_walk area_lib (recorded failing_answer) area_url [] =
     (([JStr ''/homedetails/1_zpid/'', JStr ''/homedetails/2_zpid/''], Some TypeError),
      [area_url, first_facet_url])"
    unfolding unf big_page(2) using prices by (simp add: extend_if_def truthy_list_def)
  show ?thesis using u f beds walk by (simp add: scrape_properties_def)
qed

lemma py_key_idem: "py_key (py_key v) = py_key v"
  by (cases v) simp_all

lemma list_of_set_distinct:
  "distinct (map py_key seen) \<Longrightarrow>
     distinct (map py_key (list_of_set seen xs)) \<and>
     py_key ` set (list_of_set seen xs) = py_key ` (set seen \<union> set xs)"
proof (induction xs arbitrary: seen)
  case Nil
  then show ?case by simp
next
  case (Cons x xs)
  show ?case
  proof (cases "py_key x \<in> set (map py_key seen)")
    case True
    then have "py_key ` (set seen \<union> set (x # xs)) = py_key ` (set seen \<union> set xs)" by auto
    then show ?thesis using True Cons.IH [OF Cons.prems] by simp
  next
    case False
    then have d: "distinct (map py_key (seen @ [x]))" using Cons.prems by simp
    have "py_key ` (set (seen @ [x]) \<union> set xs) = py_key ` (set seen \<union> set (x # xs))" by auto
    then show ?thesis using False Cons.IH [OF d] by simp
  qed
qed

text \<open>
  Claim C6, as the code has it. The list \<open>scrape_properties\<close> returns has no two
  equal elements (equal as Python values, which for strings is exact equality), and it
  has the same elements as the links gathered by the walk.
\<close>

theorem scrape_properties_distinct:
  assumes "scrape_properties L fetch base_url w = (Inr links, w')"
  shows "distinct (map py_key links) \<and> distinct links \<and>
         py_key ` set links = py_key ` set (fst (fst (scrape_walk L fetch base_url w)))"
proof -
  obtain all_links caught w1 where walk: "scrape_walk L fetch base_url w = ((all_links, caught), w1)"
    by (cases "scrape_walk L fetch base_url w") auto
  from assms have links: "links = list_of_set [] all_links"
    by (auto simp: scrape_properties_def walk split: if_splits)
  have "distinct (map py_key links) \<and> py_key ` set links = py_key ` set all_links"
    using list_of_set_distinct [of "[]" all_links] by (simp add: links)
  moreover then have "distinct links" by (simp add: distinct_map)
  ultimately show ?thesis by (simp add: walk)
qed

theorem scrape_properties_distinct_witness:
  "\<exists>fetched'. scrape_properties area_lib (recorded direct_answer) area_url [] =
      (Inr [JStr ''/homedetails/1_zpid/'', JStr ''/homedetails/2_zpid/'', JStr ''/homedetails/3_zpid/''],
       fetched') \<and>
    distinct (map py_key
      [JStr ''/homedetails/1_zpid/'', JStr ''/homedetails/2_zpid/'', JStr ''/homedetails/3_zpid/'']) \<and>
    py_key ` set [JStr ''/homedetails/1_zpid/'', JStr ''/homedetails/2_zpid/'', JStr ''/homedetails/3_zpid/'']
      = py_key ` set (fst (fst (scrape_walk area_lib (recorded direct_answer) area_url [])))"
proof -
  obtain fetched1 where w1: "scrape_walk area_lib (recorded direct_answer) area_url [] =
     (([JStr ''/homedetails/1_zpid/'', JStr ''/homedetails/2_zpid/'', JStr ''/homedetails/3_zpid/'',
        JStr ''/homedetails/3_zpid/''], None), fetched1)"
    using direct_walk by blast
  have r: "scrape_properties area_lib (recorded direct_answer) area_url [] =
      (Inr [JStr ''/homedetails/1_zpid/'', JStr ''/homedetails/2_zpid/'', JStr ''/homedetails/3_zpid/''],
       fetched1)"
    by (simp add: scrape_properties_def w1)
  from scrape_properties_distinct [OF r] r show ?thesis by blast
qed

text \<open>
  Claim C6 as the specification words it fails: nothing trims a link. Two links that
  differ in a trailing space are both returned, and are equal after a trim.
\<close>

theorem scrape_properties_keeps_untrimmed:
  "scrape_properties area_lib (recorded spaced_answer) area_url [] =
     (Inr [JStr ''/homedetails/1_zpid/'', JStr ''/homedetails/1_zpid/ ''], [area_url]) \<and>
   \<not> distinct (map trimmed [JStr ''/homedetails/1_zpid/'', JStr ''/homedetails/1_zpid/ ''])"
proof -
  have f: "recorded spaced_answer area_url [] = ((Some (script_page spaced_text), None), [area_url])"
    by (simp add: recorded_apply spaced_answer_def)
  have ne: "script_page spaced_text \<noteq> []" by (simp add: script_page_def)
  have n: "py_int (JInt 1) = Inr 1" by simp
  note unf = scrape_walk_unfold [where fetch="recorded spaced_answer" and w="[]", OF f ne spaced_page(1) n]
  have walk: "scrape_walk area_lib (recorded spaced_answer) area_url [] =
     (([JStr ''/homedetails/1_zpid/'', JStr ''/homedetails/1_zpid/ ''], None), [area_url])"
    unfolding unf spaced_page(2)
    by (simp add: scrape_all_pages_single [OF n] extend_if_def truthy_list_def)
  have "scrape_properties area_lib (recorded spaced_answer) area_url [] =
     (Inr [JStr ''/homedetails/1_zpid/'', JStr ''/homedetails/1_zpid/ ''], [area_url])"
    by (simp add: scrape_properties_def walk)
  moreover have "\<not> distinct (map trimmed [JStr ''/homedetails/1_zpid/'', JStr ''/homedetails/1_zpid/ ''])"
    by (simp add: py_strip_def py_isspace_def)
  ultimately show ?thesis by blast
qed

subsection \<open>propertyfields\<close>

text \<open>
  Claim C9 says that \<open>parsePropertyFields\<close> returns a record of seven fields for every input
  and never raises.  The code raises: when the description of the page has a dollar sign followed
  by nothing but white space, \<open>parts[1].split()\<close> is the empty list and its element 0 is read
  outside any \<open>try\<close>, so \<open>extractPropertyInfo\<close>, and with it \<open>parsePropertyFields\<close>,
  ends with an \<open>IndexError\<close>.
\<close>

theorem parsePropertyFields_raises:
  assumes "meta_description (BeautifulSoup L html) = Some (Some content)"
    and "py_split ''$'' content = before # after # rest"
    and "py_split_ws after = []"
  shows "parsePropertyFields L html url = Inl IndexError"
  using assms
  by (simp add: parsePropertyFields_def extractPropertyInfo_def Let_def split: prod.splits)

lemma listing_soups:
  "BeautifulSoup listing_lib listing_page = listing_soup"
  "BeautifulSoup listing_lib unpriced_page = unpriced_soup"
  by (simp_all add: listing_lib_def table_lib_def listing_page_def unpriced_page_def)

theorem parsePropertyFields_raises_witness:
  "meta_description (BeautifulSoup listing_lib unpriced_page)
     = Some (Some ''Contact the agent for the price in US$'') \<and>
   py_split ''$'' ''Contact the agent for the price in US$''
     = [''Contact the agent for the price in US'', []] \<and>
   py_split_ws [] = [] \<and>
   parsePropertyFields listing_lib unpriced_page ''https://www.zillow.com/homedetails/1_zpid/''
     = Inl IndexError"
proof -
  have m: "meta_description (BeautifulSoup listing_lib unpriced_page)
     = Some (Some ''Contact the agent for the price in US$'')"
    by (simp add: listing_soups unpriced_soup_def)
  have s: "py_split ''$'' ''Contact the agent for the price in US$''
     = [''Contact the agent for the price in US'', []]"
    by (simp add: py_split_def)
  have w: "py_split_ws [] = []" by (simp add: py_split_ws_def)
  from parsePropertyFields_raises [OF m s w] m s w show ?thesis by simp
qed

text \<open>
  The second way to raise: a \<open>dt\<close> without class and without a \<open>strong\<close> child among the
  first three of the overview statistics.  On a page with none of the tags every field is the
  marker \<open>N/A\<close>, and on the full listing page every field is read.
\<close>

lemma extractStats_raises:
  "\<lbrakk> overview_stats sp = Some (dt # dts); \<not> truthy_list (dt_class dt); strong_text dt = None \<rbrakk>
     \<Longrightarrow> extractStats sp = Inl AttributeError"
  by (simp add: extractStats_def stat_text_def)

lemma parsePropertyFields_no_tags:
  "BeautifulSoup L html = no_tags \<Longrightarrow>
     parsePropertyFields L html u =
       Inr \<lparr>address = ''N/A'', listed_price = ''N/A'', mls = ''N/A'', days_on_zillow = ''N/A'',
            views = ''N/A'', saves = ''N/A'', detail_url = u\<rparr>"
  by (simp add: parsePropertyFields_def no_tags_def extractPropertyInfo_def extractStats_def)


subsection \<open>The harvest of the listing pages\<close>


















subsection \<open>A run of the harvest\<close>








end
